theory Spec2Isabelle
  imports Complex_Main "HOL-Library.Word"
begin

section \<open>Vectors of the maths library\<close>

text \<open>
  The two source files are written against the vsg scene graph library. Its vector types
  \<open>vec2\<close>, \<open>vec3\<close>, \<open>vec4\<close> (float components) and \<open>dvec2\<close>, \<open>dvec3\<close> (double
  components) are modelled with real components: rounding, infinities and NaN are outside
  the model. The component-wise operators are written out here, \<open>dot\<close>, \<open>cross\<close> and
  \<open>length\<close> further down; the functions of the library that divide or build matrices,
  and its ellipsoid model, are parameters of the model.
\<close>

datatype vec2 = Vec2 (vec2_x: real) (vec2_y: real)

datatype vec3 = Vec3 (vec3_x: real) (vec3_y: real) (vec3_z: real)

datatype vec4 = Vec4 (vec4_r: real) (vec4_g: real) (vec4_b: real) (vec4_a: real)

instantiation vec3 :: ab_group_add
begin

definition zero_vec3 :: vec3 where
  "zero_vec3 = Vec3 0 0 0"

definition plus_vec3 :: "vec3 \<Rightarrow> vec3 \<Rightarrow> vec3" where
  "plus_vec3 a b = Vec3 (vec3_x a + vec3_x b) (vec3_y a + vec3_y b) (vec3_z a + vec3_z b)"

definition minus_vec3 :: "vec3 \<Rightarrow> vec3 \<Rightarrow> vec3" where
  "minus_vec3 a b = Vec3 (vec3_x a - vec3_x b) (vec3_y a - vec3_y b) (vec3_z a - vec3_z b)"

definition uminus_vec3 :: "vec3 \<Rightarrow> vec3" where
  "uminus_vec3 a = Vec3 (- vec3_x a) (- vec3_y a) (- vec3_z a)"

instance
  by standard
    (simp_all add: zero_vec3_def plus_vec3_def minus_vec3_def uminus_vec3_def vec3.expand)

end

instantiation vec2 :: ab_group_add
begin

definition zero_vec2 :: vec2 where
  "zero_vec2 = Vec2 0 0"

definition plus_vec2 :: "vec2 \<Rightarrow> vec2 \<Rightarrow> vec2" where
  "plus_vec2 a b = Vec2 (vec2_x a + vec2_x b) (vec2_y a + vec2_y b)"

definition minus_vec2 :: "vec2 \<Rightarrow> vec2 \<Rightarrow> vec2" where
  "minus_vec2 a b = Vec2 (vec2_x a - vec2_x b) (vec2_y a - vec2_y b)"

definition uminus_vec2 :: "vec2 \<Rightarrow> vec2" where
  "uminus_vec2 a = Vec2 (- vec2_x a) (- vec2_y a)"

instance
  by standard
    (simp_all add: zero_vec2_def plus_vec2_def minus_vec2_def uminus_vec2_def vec2.expand)

end

text \<open>\<open>v * s\<close>: a vector scaled by a number.\<close>

definition scale3 :: "vec3 \<Rightarrow> real \<Rightarrow> vec3" where
  "scale3 v s = Vec3 (vec3_x v * s) (vec3_y v * s) (vec3_z v * s)"


section \<open>Builder.cpp: the geometry builder\<close>

subsection \<open>Data\<close>

text \<open>
  Objects held through \<open>ref_ptr\<close> live in a heap, a list of objects addressed by
  position; a \<open>ref_ptr\<close> is an \<open>addr option\<close> with \<open>None\<close> the null pointer. Creating
  an object appends it, so two objects created at different times have different
  addresses.
\<close>

type_synonym addr = nat

datatype data_array =
    Vec3Array "vec3 list"
  | Vec2Array "vec2 list"
  | UShortArray "16 word list"

text \<open>
  \<open>DrawIndexed indexCount instanceCount firstIndex vertexOffset firstInstance\<close> and
  \<open>Draw vertexCount instanceCount firstVertex firstInstance\<close>.
\<close>

datatype command =
    BindVertexBuffers nat "data_array list"
  | BindIndexBuffer data_array
  | DrawIndexed nat nat nat nat nat
  | Draw nat nat nat nat

text \<open>
  The children a scene graph root is given: \<open>Geometry arrays indices commands\<close> and
  \<open>VertexIndexDraw arrays indices indexCount instanceCount\<close>.
\<close>

datatype node =
    Commands "command list"
  | Geometry "data_array list" data_array "command list"
  | VertexIndexDraw "data_array list" data_array nat nat

text \<open>
  Heap objects. \<open>Vec4Array2D width height data\<close> is an image;
  \<open>BindDescriptorSets pipelineLayout descriptorSetLayout textureData\<close> stands for the
  binding together with the sampler, descriptor image and descriptor set created for it;
  \<open>StateGroup stateCommands children\<close> is the root of a built subgraph.
\<close>

datatype object =
    Vec4Array2D nat nat "vec4 list"
  | DescriptorSetLayout
  | PipelineLayout "addr option"
  | BindGraphicsPipeline "addr option"
  | BindDescriptorSets "addr option" "addr option" addr
  | StateGroup "addr option list" "node list"

datatype GeometryType = DRAW_COMMANDS | DRAW_INDEXED_COMMANDS | GEOMETRY | VERTEX_INDEX_DRAW

text \<open>
  Modelled from the spec: the declaration of \<open>GeometryInfo\<close> (Builder.h) is not among
  the sources. The spec gives it as position, dimensions and a colour or texture
  reference, used as a cache key; the code reads \<open>info.position\<close>, \<open>info.dimensions\<close>,
  \<open>info.color\<close> and \<open>info.image\<close>. Two descriptors are the same key when they are equal.
\<close>

record GeometryInfo =
  position :: vec3
  dimensions :: vec3
  color :: vec4
  image_data :: "addr option"

text \<open>
  The members of \<open>Builder\<close> that Builder.cpp uses (the class declaration, Builder.h, is
  not among the sources), named without their leading underscore; \<open>boxes\<close> is the map
  \<open>_boxes\<close> from descriptors to subgraphs. \<open>compile_traversal\<close> says whether
  \<open>_compile\<close> is set, \<open>compiled\<close> lists the subgraphs handed to it, \<open>shaders_found\<close>
  says whether both shader files can be read (the file system is outside the program),
  and \<open>cout\<close> is the text printed so far, one entry per line.
\<close>

record Builder =
  verbose :: bool
  geometryType :: GeometryType
  compile_traversal :: bool
  compiled :: "addr list"
  shaders_found :: bool
  allocatedTextureCount :: nat
  maxNumTextures :: nat
  colorData :: "vec4 \<rightharpoonup> addr"
  textureDescriptorSets :: "addr \<rightharpoonup> addr option"
  descriptorSetLayout :: "addr option"
  pipelineLayout :: "addr option"
  bindGraphicsPipeline :: "addr option"
  boxes :: "GeometryInfo \<rightharpoonup> addr option"
  heap :: "object list"
  cout :: "string list"

text \<open>
  A builder as constructed: no cache entry, no object, nothing printed. The initial values
  of \<open>verbose\<close> and \<open>geometryType\<close> are given in the class declaration and are
  arguments here, with \<open>shaders_found\<close>.
\<close>

definition Builder_new :: "bool \<Rightarrow> GeometryType \<Rightarrow> bool \<Rightarrow> Builder" where
  "Builder_new v gt sf =
     \<lparr>verbose = v, geometryType = gt, compile_traversal = False, compiled = [],
      shaders_found = sf, allocatedTextureCount = 0, maxNumTextures = 0,
      colorData = Map.empty, textureDescriptorSets = Map.empty,
      descriptorSetLayout = None, pipelineLayout = None, bindGraphicsPipeline = None,
      boxes = Map.empty, heap = [], cout = []\<rparr>"

definition alloc :: "object \<Rightarrow> Builder \<Rightarrow> addr \<times> Builder" where
  "alloc ob b = (length (heap b), b\<lparr>heap := heap b @ [ob]\<rparr>)"

definition print_line :: "string \<Rightarrow> Builder \<Rightarrow> Builder" where
  "print_line s b = b\<lparr>cout := cout b @ [s]\<rparr>"

text \<open>\<open>scenegraph->add(c)\<close> and \<open>scenegraph->addChild(n)\<close> on the state group at \<open>a\<close>.\<close>

definition StateGroup_add :: "addr \<Rightarrow> addr option \<Rightarrow> Builder \<Rightarrow> Builder" where
  "StateGroup_add a c b =
     b\<lparr>heap := (heap b)[a := (case heap b ! a of
                                StateGroup st ch \<Rightarrow> StateGroup (st @ [c]) ch
                              | ob \<Rightarrow> ob)]\<rparr>"

definition StateGroup_addChild :: "addr \<Rightarrow> node \<Rightarrow> Builder \<Rightarrow> Builder" where
  "StateGroup_addChild a n b =
     b\<lparr>heap := (heap b)[a := (case heap b ! a of
                                StateGroup st ch \<Rightarrow> StateGroup st (ch @ [n])
                              | ob \<Rightarrow> ob)]\<rparr>"

subsection \<open>setup, textures, pipeline, compile\<close>

definition Builder_setup :: "nat \<Rightarrow> Builder \<Rightarrow> Builder" where
  "Builder_setup maxNum b =
     b\<lparr>compile_traversal := True, allocatedTextureCount := 0, maxNumTextures := maxNum\<rparr>"

definition createTexture :: "Builder \<Rightarrow> GeometryInfo \<Rightarrow> addr \<times> Builder" where
  "createTexture b info =
     (let (textureData, b1) =
            (case image_data info of
               Some d \<Rightarrow> (d, b)
             | None \<Rightarrow>
                 (case colorData b (color info) of
                    Some d \<Rightarrow> (d, b)
                  | None \<Rightarrow>
                      (let (im, b') =
                             alloc (Vec4Array2D 2 2
                                      [Vec4 0 1 1 1, color info, color info, Vec4 0 0 1 1]) b
                       in (im, b'\<lparr>colorData := (colorData b')(color info \<mapsto> im)\<rparr>))))
      in case textureDescriptorSets b1 textureData of
           Some (Some bds) \<Rightarrow> (bds, b1)
         | _ \<Rightarrow>
             (let (bds, b2) =
                    alloc (BindDescriptorSets (pipelineLayout b1) (descriptorSetLayout b1)
                             textureData) b1
              in (bds, b2\<lparr>textureDescriptorSets :=
                             (textureDescriptorSets b2)(textureData \<mapsto> Some bds)\<rparr>)))"

definition createGraphicsPipeline :: "Builder \<Rightarrow> addr option \<times> Builder" where
  "createGraphicsPipeline b =
     (case bindGraphicsPipeline b of
        Some p \<Rightarrow> (Some p, b)
      | None \<Rightarrow>
          (let b1 = print_line ''Builder::_initGraphicsPipeline()'' b
           in if \<not> shaders_found b1
              then (None, print_line ''Could not create shaders.'' b1)
              else
                (let (dsl, b2) = alloc DescriptorSetLayout b1;
                     b3 = b2\<lparr>descriptorSetLayout := Some dsl\<rparr>;
                     (pl, b4) = alloc (PipelineLayout (Some dsl)) b3;
                     b5 = b4\<lparr>pipelineLayout := Some pl\<rparr>;
                     (bgp, b6) = alloc (BindGraphicsPipeline (Some pl)) b5
                 in (Some bgp, b6\<lparr>bindGraphicsPipeline := Some bgp\<rparr>))))"

text \<open>
  \<open>compile\<close>: the line printed when \<open>verbose\<close> is set shows two addresses, which are
  left out here; the traversal itself belongs to the library and is only recorded.
\<close>

definition compile :: "addr \<Rightarrow> Builder \<Rightarrow> Builder" where
  "compile subgraph b =
     (let b1 = (if verbose b then print_line ''Builder::compile'' b else b)
      in if compile_traversal b1 then b1\<lparr>compiled := compiled b1 @ [subgraph]\<rparr> else b1)"

subsection \<open>createBox\<close>

text \<open>The arrays of \<open>createBox\<close>, named as its local variables.\<close>

definition v000 :: "GeometryInfo \<Rightarrow> vec3" where
  "v000 info = position info"

definition v100 :: "GeometryInfo \<Rightarrow> vec3" where
  "v100 info = position info + Vec3 (vec3_x (dimensions info)) 0 0"

definition v110 :: "GeometryInfo \<Rightarrow> vec3" where
  "v110 info = position info + Vec3 (vec3_x (dimensions info)) (vec3_y (dimensions info)) 0"

definition v010 :: "GeometryInfo \<Rightarrow> vec3" where
  "v010 info = position info + Vec3 0 (vec3_y (dimensions info)) 0"

definition v001 :: "GeometryInfo \<Rightarrow> vec3" where
  "v001 info = position info + Vec3 0 0 (vec3_z (dimensions info))"

definition v101 :: "GeometryInfo \<Rightarrow> vec3" where
  "v101 info = position info + Vec3 (vec3_x (dimensions info)) 0 (vec3_z (dimensions info))"

definition v111 :: "GeometryInfo \<Rightarrow> vec3" where
  "v111 info = position info
     + Vec3 (vec3_x (dimensions info)) (vec3_y (dimensions info)) (vec3_z (dimensions info))"

definition v011 :: "GeometryInfo \<Rightarrow> vec3" where
  "v011 info = position info + Vec3 0 (vec3_y (dimensions info)) (vec3_z (dimensions info))"

definition box_vertices :: "GeometryInfo \<Rightarrow> vec3 list" where
  "box_vertices info =
     [v000 info, v100 info, v101 info, v001 info,
      v100 info, v110 info, v111 info, v101 info,
      v110 info, v010 info, v011 info, v111 info,
      v010 info, v000 info, v001 info, v011 info,
      v010 info, v110 info, v100 info, v000 info,
      v001 info, v101 info, v111 info, v011 info]"

definition box_colors :: "GeometryInfo \<Rightarrow> vec3 list" where
  "box_colors info = replicate (length (box_vertices info)) (Vec3 1 1 1)"

definition t00 :: vec2 where "t00 = Vec2 0 0"
definition t01 :: vec2 where "t01 = Vec2 0 1"
definition t10 :: vec2 where "t10 = Vec2 1 0"
definition t11 :: vec2 where "t11 = Vec2 1 1"

definition box_texcoords :: "vec2 list" where
  "box_texcoords =
     [t00, t10, t11, t01,
      t00, t10, t11, t01,
      t00, t10, t11, t01,
      t00, t10, t11, t01,
      t00, t10, t11, t01,
      t00, t10, t11, t01]"

definition box_indices :: "16 word list" where
  "box_indices =
     [0, 1, 2, 0, 2, 3,
      4, 5, 6, 4, 6, 7,
      8, 9, 10, 8, 10, 11,
      12, 13, 14, 12, 14, 15,
      16, 17, 18, 16, 18, 19,
      20, 21, 22, 20, 22, 23]"

definition box_drawCommands :: "GeometryInfo \<Rightarrow> node" where
  "box_drawCommands info =
     Commands
       [BindVertexBuffers 0
          [Vec3Array (box_vertices info), Vec3Array (box_colors info), Vec2Array box_texcoords],
        BindIndexBuffer (UShortArray box_indices),
        DrawIndexed (length box_indices) 1 0 0 0]"

text \<open>The part of \<open>createBox\<close> after the cache lookup has found no subgraph.\<close>

definition createBox_new :: "Builder \<Rightarrow> GeometryInfo \<Rightarrow> addr option \<times> Builder" where
  "createBox_new b info =
     (let b1 = print_line ''new createBox()'' b;
          (scenegraph, b2) = alloc (StateGroup [] []) b1;
          (pipeline, b3) = createGraphicsPipeline b2;
          b4 = StateGroup_add scenegraph pipeline b3;
          (tex, b5) = createTexture b4 info;
          b6 = StateGroup_add scenegraph (Some tex) b5;
          b7 = StateGroup_addChild scenegraph (box_drawCommands info) b6;
          b8 = compile scenegraph b7
      in (Some scenegraph, b8\<lparr>boxes := (boxes b8)(info \<mapsto> Some scenegraph)\<rparr>))"

text \<open>
  \<open>auto& subgraph = _boxes[info]\<close> adds a null entry when the key is new; the reference
  stays valid, and \<open>subgraph = scenegraph\<close> at the end writes the entry.
\<close>

definition createBox :: "Builder \<Rightarrow> GeometryInfo \<Rightarrow> addr option \<times> Builder" where
  "createBox b info =
     (case boxes b info of
        Some (Some subgraph) \<Rightarrow> (Some subgraph, print_line ''reused createBox()'' b)
      | Some None \<Rightarrow> createBox_new b info
      | None \<Rightarrow> createBox_new (b\<lparr>boxes := (boxes b)(info \<mapsto> None)\<rparr>) info)"

definition createCapsule :: "Builder \<Rightarrow> GeometryInfo \<Rightarrow> addr option \<times> Builder" where
  "createCapsule b info = createBox (print_line ''createCapsule()'' b) info"

definition createCone :: "Builder \<Rightarrow> GeometryInfo \<Rightarrow> addr option \<times> Builder" where
  "createCone b info = createBox (print_line ''createCone()'' b) info"

definition createCylinder :: "Builder \<Rightarrow> GeometryInfo \<Rightarrow> addr option \<times> Builder" where
  "createCylinder b info = createBox (print_line ''createCylinder()'' b) info"

definition createSphere :: "Builder \<Rightarrow> GeometryInfo \<Rightarrow> addr option \<times> Builder" where
  "createSphere b info = createBox (print_line ''createSphere()'' b) info"

subsection \<open>createQuad\<close>

text \<open>The arrays of \<open>createQuad\<close>, named as its local variables.\<close>

definition quad_vertices :: "GeometryInfo \<Rightarrow> vec3 list" where
  "quad_vertices info =
     [position info,
      position info + Vec3 (vec3_x (dimensions info)) 0 0,
      position info + Vec3 (vec3_x (dimensions info)) (vec3_y (dimensions info)) 0,
      position info + Vec3 0 (vec3_y (dimensions info)) 0]"

definition quad_colors :: "vec3 list" where
  "quad_colors = [Vec3 1 0 0, Vec3 0 1 0, Vec3 0 0 1, Vec3 1 1 1]"

definition quad_texcoords :: "vec2 list" where
  "quad_texcoords = [Vec2 0 0, Vec2 1 0, Vec2 1 1, Vec2 0 1]"

definition quad_indices :: "16 word list" where
  "quad_indices = [0, 1, 2, 2, 3, 0]"

text \<open>
  The loop of the \<open>DRAW_COMMANDS\<close> case, from \<open>i\<close> on. \<open>at\<close> and \<open>set\<close> do not check
  their index; lemma \<open>quad_indices_in_range\<close> below shows that every read of the loop is
  inside its array, and the expanded arrays have one slot per index.
\<close>

function expand_loop ::
  "nat \<Rightarrow> 16 word list \<Rightarrow> vec3 list \<Rightarrow> vec3 list \<Rightarrow> vec2 list \<Rightarrow>
   vec3 list \<times> vec3 list \<times> vec2 list \<Rightarrow> vec3 list \<times> vec3 list \<times> vec2 list" where
  "expand_loop i indices vertices colors texcoords (ev, ec, et) =
     (if i < length indices
      then expand_loop (Suc i) indices vertices colors texcoords
             (ev[i := vertices ! unat (indices ! i)],
              ec[i := colors ! unat (indices ! i)],
              et[i := texcoords ! unat (indices ! i)])
      else (ev, ec, et))"
  by pat_completeness auto
termination
  by (relation "measure (\<lambda>(i, indices, _). length indices - i)") auto

text \<open>The child that the switch over \<open>geometryType\<close> adds to the scene graph.\<close>

definition quad_geometry :: "GeometryType \<Rightarrow> GeometryInfo \<Rightarrow> node" where
  "quad_geometry gt info =
     (case gt of
        DRAW_COMMANDS \<Rightarrow>
          (let (expanded_vertices, expanded_colors, expanded_texcoords) =
                 expand_loop 0 quad_indices (quad_vertices info) quad_colors quad_texcoords
                   (replicate (length quad_indices) 0,
                    replicate (length quad_indices) 0,
                    replicate (length quad_indices) 0)
           in Commands
                [BindVertexBuffers 0
                   [Vec3Array expanded_vertices, Vec3Array expanded_colors,
                    Vec2Array expanded_texcoords],
                 Draw (length expanded_vertices) 1 0 0])
      | DRAW_INDEXED_COMMANDS \<Rightarrow>
          Commands
            [BindVertexBuffers 0
               [Vec3Array (quad_vertices info), Vec3Array quad_colors, Vec2Array quad_texcoords],
             BindIndexBuffer (UShortArray quad_indices),
             DrawIndexed (length quad_indices) 1 0 0 0]
      | GEOMETRY \<Rightarrow>
          Geometry
            [Vec3Array (quad_vertices info), Vec3Array quad_colors, Vec2Array quad_texcoords]
            (UShortArray quad_indices)
            [DrawIndexed (length quad_indices) 1 0 0 0]
      | VERTEX_INDEX_DRAW \<Rightarrow>
          VertexIndexDraw
            [Vec3Array (quad_vertices info), Vec3Array quad_colors, Vec2Array quad_texcoords]
            (UShortArray quad_indices) (length quad_indices) 1)"

text \<open>
  The part of \<open>createQuad\<close> after the cache lookup has found no subgraph. It returns
  \<open>scenegraph\<close>; nothing is assigned to \<open>subgraph\<close>, the entry of \<open>_boxes\<close>.
\<close>

definition createQuad_new :: "Builder \<Rightarrow> GeometryInfo \<Rightarrow> addr option \<times> Builder" where
  "createQuad_new b info =
     (let b1 = print_line ''new createQuad()'' b;
          (scenegraph, b2) = alloc (StateGroup [] []) b1;
          (pipeline, b3) = createGraphicsPipeline b2;
          b4 = StateGroup_add scenegraph pipeline b3;
          (tex, b5) = createTexture b4 info;
          b6 = StateGroup_add scenegraph (Some tex) b5;
          b7 = StateGroup_addChild scenegraph (quad_geometry (geometryType b6) info) b6;
          b8 = compile scenegraph b7
      in (Some scenegraph, b8))"

definition createQuad :: "Builder \<Rightarrow> GeometryInfo \<Rightarrow> addr option \<times> Builder" where
  "createQuad b info =
     (case boxes b info of
        Some (Some subgraph) \<Rightarrow> (Some subgraph, print_line ''reused createQuad()'' b)
      | Some None \<Rightarrow> createQuad_new b info
      | None \<Rightarrow> createQuad_new (b\<lparr>boxes := (boxes b)(info \<mapsto> None)\<rparr>) info)"

subsection \<open>Box geometry and the cache invariant\<close>

text \<open>
  The corners of the box of a descriptor: \<open>corner info i j k\<close> is the corner on the high
  side of the x, y, z extent where \<open>i\<close>, \<open>j\<close>, \<open>k\<close> hold. A face is an axis with a
  side; \<open>face_corners\<close> are its four corners, and \<open>box_faces\<close> lists the six faces in
  the order in which \<open>createBox\<close> lists their vertices.
\<close>

datatype axis = X_axis | Y_axis | Z_axis

definition corner :: "GeometryInfo \<Rightarrow> bool \<Rightarrow> bool \<Rightarrow> bool \<Rightarrow> vec3" where
  "corner info i j k =
     Vec3 (vec3_x (position info) + (if i then vec3_x (dimensions info) else 0))
          (vec3_y (position info) + (if j then vec3_y (dimensions info) else 0))
          (vec3_z (position info) + (if k then vec3_z (dimensions info) else 0))"

definition box_corners :: "GeometryInfo \<Rightarrow> vec3 set" where
  "box_corners info =
     set (concat (map (\<lambda>i. concat (map (\<lambda>j. map (\<lambda>k. corner info i j k) [False, True])
                                          [False, True])) [False, True]))"

definition on_face :: "axis \<times> bool \<Rightarrow> bool \<Rightarrow> bool \<Rightarrow> bool \<Rightarrow> bool" where
  "on_face f i j k = (case fst f of X_axis \<Rightarrow> i = snd f | Y_axis \<Rightarrow> j = snd f | Z_axis \<Rightarrow> k = snd f)"

definition face_corners :: "GeometryInfo \<Rightarrow> axis \<times> bool \<Rightarrow> vec3 set" where
  "face_corners info f =
     set (concat (map (\<lambda>i. concat (map (\<lambda>j. map (\<lambda>k. corner info i j k)
                                                 (filter (on_face f i j) [False, True]))
                                          [False, True])) [False, True]))"

definition box_faces :: "(axis \<times> bool) list" where
  "box_faces = [(Y_axis, False), (X_axis, True), (Y_axis, True), (X_axis, False),
                (Z_axis, False), (Z_axis, True)]"

text \<open>
  The cache invariant: every subgraph in \<open>_boxes\<close> is a live state group whose only child
  is the draw commands of the box of its key.
\<close>

definition is_box_subgraph :: "object \<Rightarrow> GeometryInfo \<Rightarrow> bool" where
  "is_box_subgraph ob info =
     (case ob of StateGroup st ch \<Rightarrow> ch = [box_drawCommands info] | _ \<Rightarrow> False)"

definition boxes_built :: "Builder \<Rightarrow> bool" where
  "boxes_built b =
     (\<forall>info a. boxes b info = Some (Some a) \<longrightarrow>
        a < length (heap b) \<and> is_box_subgraph (heap b ! a) info)"

text \<open>A descriptor for concrete evaluations: the white unit cube at the origin.\<close>

definition unit_box :: GeometryInfo where
  "unit_box = \<lparr>position = Vec3 0 0 0, dimensions = Vec3 1 1 1, color = Vec4 1 1 1 1,
                image_data = None\<rparr>"


subsection \<open>What a command list draws\<close>

text \<open>
  The vertex sequence that recorded commands issue, for the comparison of the non-indexed
  \<open>Draw\<close> of \<open>createQuad\<close> with its indexed \<open>DrawIndexed\<close>. The draw calls
  themselves are Vulkan's (\<open>vkCmdDraw\<close>, \<open>vkCmdDrawIndexed\<close>). \<open>Draw\<close> reads \<open>vertexCount\<close> consecutive entries of the bound
  vertex arrays from \<open>firstVertex\<close> on; \<open>DrawIndexed\<close> reads \<open>indexCount\<close> entries of the
  bound index array from \<open>firstIndex\<close> on and, for each, the entry of the vertex arrays
  at \<open>vertexOffset\<close> plus that index. A vertex is position, colour and texture
  coordinate; a read outside an array gives \<open>None\<close>.
\<close>

type_synonym vertex = "vec3 \<times> vec3 \<times> vec2"

fun vertex_at :: "data_array list \<Rightarrow> nat \<Rightarrow> vertex option" where
  "vertex_at [Vec3Array vs, Vec3Array cs, Vec2Array ts] k =
     (if k < length vs \<and> k < length cs \<and> k < length ts
      then Some (vs ! k, cs ! k, ts ! k) else None)"
| "vertex_at _ k = None"

fun issued_vertices :: "command list \<Rightarrow> data_array list \<Rightarrow> 16 word list \<Rightarrow> vertex option list" where
  "issued_vertices [] arrays ixs = []"
| "issued_vertices (BindVertexBuffers first arrays' # cs) arrays ixs =
     issued_vertices cs arrays' ixs"
| "issued_vertices (BindIndexBuffer (UShortArray ixs') # cs) arrays ixs =
     issued_vertices cs arrays ixs'"
| "issued_vertices (BindIndexBuffer other # cs) arrays ixs = issued_vertices cs arrays ixs"
| "issued_vertices (Draw n inst first finst # cs) arrays ixs =
     map (vertex_at arrays) [first ..< first + n] @ issued_vertices cs arrays ixs"
| "issued_vertices (DrawIndexed n inst firstIndex vertexOffset finst # cs) arrays ixs =
     map (\<lambda>i. if i < length ixs then vertex_at arrays (vertexOffset + unat (ixs ! i)) else None)
         [firstIndex ..< firstIndex + n]
     @ issued_vertices cs arrays ixs"

definition node_vertices :: "node \<Rightarrow> vertex option list" where
  "node_vertices n =
     (case n of
        Commands cs \<Rightarrow> issued_vertices cs [] []
      | Geometry arrays ind cs \<Rightarrow>
          issued_vertices cs arrays (case ind of UShortArray ixs \<Rightarrow> ixs | _ \<Rightarrow> [])
      | VertexIndexDraw arrays ind n inst \<Rightarrow>
          issued_vertices [DrawIndexed n inst 0 0 0] arrays
            (case ind of UShortArray ixs \<Rightarrow> ixs | _ \<Rightarrow> []))"

definition children :: "object \<Rightarrow> node list" where
  "children ob = (case ob of StateGroup st ch \<Rightarrow> ch | _ \<Rightarrow> [])"

section \<open>GlobeTrackball.cpp: the globe trackball\<close>

subsection \<open>Numbers and the library's functions\<close>

text \<open>
  A double is a real number here. A division that the code writes is checked: when the
  divisor is zero the C++ quotient is an infinity or NaN, which no real number stands for,
  and the model gives \<open>NonFinite\<close> for it and for what is computed from it. (The one
  division left unchecked,
  \<open>xp / xp_len\<close> in the handler of move events, stands behind the test \<open>xp_len > 0\<close>.)
  \<open>dot\<close>, \<open>cross\<close> and \<open>length\<close> of the library are written out; \<open>cos\<close> and \<open>asin\<close>
  are the real functions.
\<close>

datatype error = NonFinite

definition fdiv :: "real \<Rightarrow> real \<Rightarrow> error + real" where
  "fdiv a b = (if b = 0 then Inl NonFinite else Inr (a / b))"

definition dot :: "vec3 \<Rightarrow> vec3 \<Rightarrow> real" where
  "dot a b = vec3_x a * vec3_x b + vec3_y a * vec3_y b + vec3_z a * vec3_z b"

definition cross :: "vec3 \<Rightarrow> vec3 \<Rightarrow> vec3" where
  "cross a b = Vec3 (vec3_y a * vec3_z b - vec3_z a * vec3_y b)
                    (vec3_z a * vec3_x b - vec3_x a * vec3_z b)
                    (vec3_x a * vec3_y b - vec3_y a * vec3_x b)"

definition length3 :: "vec3 \<Rightarrow> real" where
  "length3 v = sqrt (vec3_x v * vec3_x v + vec3_y v * vec3_y v + vec3_z v * vec3_z v)"


text \<open>
  The functions of the vsg library that divide or build matrices are parameters of the
  model: \<open>normalize\<close>, \<open>lookAt\<close>, \<open>rotate\<close>, \<open>translate\<close>, \<open>inverse\<close>, the product of
  two matrices and the product of a matrix with a point. \<open>'m\<close> is the type of \<open>dmat4\<close>.
\<close>

record 'm vsg_maths =
  vsg_normalize :: "vec3 \<Rightarrow> vec3"
  vsg_lookAt :: "vec3 \<Rightarrow> vec3 \<Rightarrow> vec3 \<Rightarrow> 'm"
  vsg_rotate :: "real \<Rightarrow> vec3 \<Rightarrow> 'm"
  vsg_translate :: "vec3 \<Rightarrow> 'm"
  vsg_inverse :: "'m \<Rightarrow> 'm"
  vsg_mult :: "'m \<Rightarrow> 'm \<Rightarrow> 'm"
  vsg_transform :: "'m \<Rightarrow> vec3 \<Rightarrow> vec3"

text \<open>
  The ellipsoid model of the library, also a parameter: its two conversions between
  Earth-centred Cartesian coordinates and (latitude, longitude, altitude), the altitude
  being the \<open>z\<close> component, and its equatorial radius.
\<close>

record EllipsoidModel =
  convertECEFToLatLongAltitude :: "vec3 \<Rightarrow> vec3"
  convertLatLongAltitudeToECEF :: "vec3 \<Rightarrow> vec3"
  radiusEquator :: real

subsection \<open>Data\<close>

record LookAt =
  eye :: vec3
  center :: vec3
  up :: vec3

text \<open>
  What \<open>_camera->getViewMatrix()\<close> points to: a \<open>LookAt\<close> object, at an address of the
  heap of \<open>LookAt\<close> objects, or anything else (null, or a view matrix of another class),
  for which the \<open>dynamic_cast\<close> to \<open>LookAt\<close> gives null.
\<close>

datatype view_ref = LookAtRef addr | OtherViewRef

record VkRect2D =
  offset_x :: "32 word"
  offset_y :: "32 word"
  extent_width :: "32 word"
  extent_height :: "32 word"

text \<open>
  The offset of a render area and the coordinates of a pointer event are \<open>int32_t\<close>, read
  with \<open>sint\<close>; the extent is \<open>uint32_t\<close>, read with \<open>unat\<close>. \<open>button1\<close>,
  \<open>button2\<close>, \<open>button3\<close> say whether \<open>mask & BUTTON_MASK_n\<close> is non-zero.
\<close>

record PointerEvent =
  pointer_handled :: bool
  pointer_x :: "32 word"
  pointer_y :: "32 word"
  button1 :: bool
  button2 :: bool
  button3 :: bool

record KeyPressEvent =
  key_handled :: bool
  keyBase :: "16 word"

record ScrollWheelEvent =
  scroll_handled :: bool
  scroll_delta :: vec3

record FrameEvent =
  frame_time :: real

datatype UpdateMode = INACTIVE | ROTATE | PAN | ZOOM

text \<open>
  The trackball with its camera: the members that GlobeTrackball.cpp uses (the class
  declaration, GlobeTrackball.h, is not among the sources), named without their leading
  underscore. \<open>views\<close> is the heap of \<open>LookAt\<close> objects; \<open>lookAt\<close> and
  \<open>homeLookAt\<close> are the addresses that \<open>_lookAt\<close> and \<open>_homeLookAt\<close> hold;
  \<open>camera_viewMatrix\<close> and \<open>camera_renderArea\<close> are what the camera returns;
  \<open>pan_delta\<close> is the member \<open>_pan\<close>; times are in seconds.
\<close>

record GlobeTrackball =
  views :: "LookAt list"
  camera_viewMatrix :: view_ref
  camera_renderArea :: VkRect2D
  ellipsoidModel :: "EllipsoidModel option"
  lookAt :: addr
  homeLookAt :: "addr option"
  hasFocus :: bool
  lastPointerEventWithinRenderArea :: bool
  updateMode :: UpdateMode
  zoomPreviousRatio :: real
  pan_delta :: vec2
  rotateAngle :: real
  rotateAxis :: vec3
  homeKey :: "16 word"
  prev_ndc :: vec2
  prev_tbc :: vec3
  first_frame :: bool
  prev_time :: real

subsection \<open>clampToGlobe, rotate, zoom, pan on the LookAt\<close>

text \<open>
  The effect of the four member functions on the object \<open>_lookAt\<close> points to, given the
  member \<open>_ellipsoidModel\<close>.
\<close>

definition clampToGlobe_lookAt :: "EllipsoidModel option \<Rightarrow> LookAt \<Rightarrow> error + LookAt" where
  "clampToGlobe_lookAt em la =
     (case em of
        None \<Rightarrow> Inr la
      | Some m \<Rightarrow>
          (let location_center = convertECEFToLatLongAltitude m (center la);
               location_eye = convertECEFToLatLongAltitude m (eye la)
           in case fdiv (vec3_z location_eye) (vec3_z location_eye - vec3_z location_center) of
                Inl e \<Rightarrow> Inl e
              | Inr ratio \<Rightarrow>
                  (let location = convertECEFToLatLongAltitude m
                                    (scale3 (center la) ratio + scale3 (eye la) (1 - ratio));
                       location' = Vec3 (vec3_x location) (vec3_y location) 0;
                       ecef = convertLatLongAltitudeToECEF m location';
                       la1 = la\<lparr>center := ecef\<rparr>;
                       minimum_altitude = 1
                   in Inr (if vec3_z location_eye < minimum_altitude
                           then la1\<lparr>eye := convertLatLongAltitudeToECEF m
                                       (Vec3 (vec3_x location_eye) (vec3_y location_eye)
                                             minimum_altitude)\<rparr>
                           else la1))))"

text \<open>\<open>rotate\<close> up to, and not including, its final call of \<open>clampToGlobe\<close>.\<close>

definition rotate_move :: "'m vsg_maths \<Rightarrow> LookAt \<Rightarrow> real \<Rightarrow> vec3 \<Rightarrow> LookAt" where
  "rotate_move ops la angle axis =
     (let rotation = vsg_rotate ops angle axis;
          lv = vsg_lookAt ops (eye la) (center la) (up la);
          centerEyeSpace = vsg_transform ops lv (center la);
          matrix = vsg_mult ops
                     (vsg_mult ops
                        (vsg_mult ops
                           (vsg_mult ops (vsg_inverse ops lv) (vsg_translate ops centerEyeSpace))
                           rotation)
                        (vsg_translate ops (- centerEyeSpace)))
                     lv;
          la1 = la\<lparr>up := vsg_normalize ops
                          (vsg_transform ops matrix (eye la + up la)
                           - vsg_transform ops matrix (eye la))\<rparr>;
          la2 = la1\<lparr>center := vsg_transform ops matrix (center la1)\<rparr>
      in la2\<lparr>eye := vsg_transform ops matrix (eye la2)\<rparr>)"

definition rotate_lookAt ::
  "'m vsg_maths \<Rightarrow> EllipsoidModel option \<Rightarrow> LookAt \<Rightarrow> real \<Rightarrow> vec3 \<Rightarrow> error + LookAt" where
  "rotate_lookAt ops em la angle axis = clampToGlobe_lookAt em (rotate_move ops la angle axis)"

definition zoom_move :: "LookAt \<Rightarrow> real \<Rightarrow> LookAt" where
  "zoom_move la ratio =
     (let lookVector = center la - eye la
      in la\<lparr>eye := eye la + scale3 lookVector ratio\<rparr>)"

definition zoom_lookAt :: "EllipsoidModel option \<Rightarrow> LookAt \<Rightarrow> real \<Rightarrow> error + LookAt" where
  "zoom_lookAt em la ratio = clampToGlobe_lookAt em (zoom_move la ratio)"

definition pan_lookAt ::
  "'m vsg_maths \<Rightarrow> EllipsoidModel option \<Rightarrow> LookAt \<Rightarrow> vec2 \<Rightarrow> error + LookAt" where
  "pan_lookAt ops em la delta =
     (let lookVector = center la - eye la;
          lookNormal = vsg_normalize ops lookVector;
          upNormal = up la;
          sideNormal = cross lookNormal upNormal;
          distance = length3 lookVector * 0.3
      in case em of
           Some m \<Rightarrow>
             (let globeNormal = vsg_normalize ops (center la);
                  scale = distance;
                  mv = scale3 upNormal (- scale * vec2_y delta)
                       + scale3 sideNormal (scale * vec2_x delta);
                  v = mv + scale3 lookNormal (dot mv globeNormal)
              in case fdiv (length3 v) (radiusEquator m) of
                   Inl e \<Rightarrow> Inl e
                 | Inr angle \<Rightarrow>
                     if angle \<noteq> 0
                     then
                       (let n = vsg_normalize ops (center la + v);
                            axis = vsg_normalize ops (cross globeNormal n);
                            matrix = vsg_rotate ops (- angle) axis;
                            la1 = la\<lparr>up := vsg_normalize ops
                                            (vsg_transform ops matrix (eye la + up la)
                                             - vsg_transform ops matrix (eye la))\<rparr>;
                            la2 = la1\<lparr>center := vsg_transform ops matrix (center la1)\<rparr>;
                            la3 = la2\<lparr>eye := vsg_transform ops matrix (eye la2)\<rparr>
                        in clampToGlobe_lookAt em la3)
                     else Inr la)
         | None \<Rightarrow>
             (let translation = scale3 sideNormal (- vec2_x delta * distance)
                                + scale3 upNormal (vec2_y delta * distance);
                  la1 = la\<lparr>eye := eye la + translation\<rparr>
              in Inr (la1\<lparr>center := center la1 + translation\<rparr>)))"

subsection \<open>The member functions on the trackball\<close>

definition on_lookAt ::
  "(LookAt \<Rightarrow> error + LookAt) \<Rightarrow> GlobeTrackball \<Rightarrow> error + GlobeTrackball" where
  "on_lookAt f t =
     (case f (views t ! lookAt t) of
        Inl e \<Rightarrow> Inl e
      | Inr la \<Rightarrow> Inr (t\<lparr>views := (views t)[lookAt t := la]\<rparr>))"

definition GlobeTrackball_clampToGlobe :: "GlobeTrackball \<Rightarrow> error + GlobeTrackball" where
  "GlobeTrackball_clampToGlobe t = on_lookAt (clampToGlobe_lookAt (ellipsoidModel t)) t"


definition GlobeTrackball_zoom :: "real \<Rightarrow> GlobeTrackball \<Rightarrow> error + GlobeTrackball" where
  "GlobeTrackball_zoom ratio t = on_lookAt (\<lambda>la. zoom_lookAt (ellipsoidModel t) la ratio) t"


text \<open>
  The body of the constructor. \<open>t\<close> is the object with the arguments bound to \<open>_camera\<close>
  and \<open>_ellipsoidModel\<close> and the other members as their declarations initialise them;
  \<open>fresh\<close> is the \<open>LookAt\<close> that \<open>new LookAt\<close> makes.
\<close>

definition GlobeTrackball_new :: "LookAt \<Rightarrow> GlobeTrackball \<Rightarrow> error + GlobeTrackball" where
  "GlobeTrackball_new fresh t =
     (let t1 = (case camera_viewMatrix t of
                  LookAtRef a \<Rightarrow> t\<lparr>lookAt := a\<rparr>
                | OtherViewRef \<Rightarrow> t\<lparr>views := views t @ [fresh], lookAt := length (views t)\<rparr>)
      in case GlobeTrackball_clampToGlobe t1 of
           Inl e \<Rightarrow> Inl e
         | Inr t2 \<Rightarrow>
             (let la = views t2 ! lookAt t2
              in Inr (t2\<lparr>views := views t2 @ [\<lparr>eye = eye la, center = center la, up = up la\<rparr>],
                         homeLookAt := Some (length (views t2))\<rparr>)))"


text \<open>
  \<open>ndc\<close>. The aspect ratio is computed first, outside the tests of the extent; it and
  the two components are doubles, each a real number or, after a division by zero, not
  finite, and the product of a number with a value that is not finite is not finite.
  \<open>ndc_components\<close> gives the two components, \<open>ndc\<close> the vector when both are real
  numbers. \<open>event.x - renderArea.offset.x\<close> is a subtraction of \<open>int32_t\<close>, taken modulo
  \<open>2^32\<close>.
\<close>

definition ndc_components :: "VkRect2D \<Rightarrow> PointerEvent \<Rightarrow> (error + real) \<times> (error + real)" where
  "ndc_components renderArea event =
     (let aspectRatio = fdiv (real (unat (extent_width renderArea)))
                             (real (unat (extent_height renderArea)));
          vx = (if 0 < extent_width renderArea
                then (case fdiv (real_of_int (sint (pointer_x event - offset_x renderArea)))
                                (real (unat (extent_width renderArea))) of
                        Inl e \<Rightarrow> Inl e
                      | Inr q \<Rightarrow>
                          (case aspectRatio of
                             Inl e \<Rightarrow> Inl e
                           | Inr a \<Rightarrow> Inr ((q * 2 - 1) * a)))
                else Inr 0);
          vy = (if 0 < extent_height renderArea
                then (case fdiv (real_of_int (sint (pointer_y event - offset_y renderArea)))
                                (real (unat (extent_height renderArea))) of
                        Inl e \<Rightarrow> Inl e
                      | Inr q \<Rightarrow> Inr (q * 2 - 1))
                else Inr 0)
      in (vx, vy))"

definition ndc :: "VkRect2D \<Rightarrow> PointerEvent \<Rightarrow> error + vec2" where
  "ndc renderArea event =
     (case ndc_components renderArea event of
        (Inr vx, Inr vy) \<Rightarrow> Inr (Vec2 vx vy)
      | _ \<Rightarrow> Inl NonFinite)"







definition apply_ScrollWheel ::
  "GlobeTrackball \<Rightarrow> ScrollWheelEvent \<Rightarrow> error + GlobeTrackball \<times> ScrollWheelEvent" where
  "apply_ScrollWheel t scrollWheel =
     (if scroll_handled scrollWheel then Inr (t, scrollWheel)
      else
        (case GlobeTrackball_zoom (vec3_y (scroll_delta scrollWheel) * 0.1) t of
           Inl e \<Rightarrow> Inl e
         | Inr t' \<Rightarrow> Inr (t', scrollWheel\<lparr>scroll_handled := True\<rparr>)))"


text \<open>An event of any of the six kinds, and the handling of a sequence of them.\<close>

datatype event =
    KeyPress KeyPressEvent
  | ButtonPress PointerEvent
  | ButtonRelease PointerEvent
  | Move PointerEvent
  | ScrollWheel ScrollWheelEvent
  | Frame FrameEvent



subsection \<open>Instances of the library's functions, for concrete evaluations\<close>



text \<open>
  A sphere of radius \<open>r\<close> about the origin as ellipsoid model: the altitude of a point is
  its distance from the origin less \<open>r\<close>, its latitude the angle over the plane of x and
  y, its longitude the angle about the z axis from the x axis on. The longitude of a point
  of the z axis and the latitude of the origin are taken as 0.
\<close>

definition sphere_model :: "real \<Rightarrow> EllipsoidModel" where
  "sphere_model r =
     \<lparr>convertECEFToLatLongAltitude =
        (\<lambda>p. Vec3 (if length3 p = 0 then 0 else arcsin (vec3_z p / length3 p))
                   (if vec3_x p = 0 \<and> vec3_y p = 0 then 0
                    else if 0 \<le> vec3_y p
                    then arccos (vec3_x p / sqrt (vec3_x p * vec3_x p + vec3_y p * vec3_y p))
                    else - arccos (vec3_x p / sqrt (vec3_x p * vec3_x p + vec3_y p * vec3_y p)))
                   (length3 p - r)),
      convertLatLongAltitudeToECEF =
        (\<lambda>l. Vec3 ((r + vec3_z l) * cos (vec3_x l) * cos (vec3_y l))
                   ((r + vec3_z l) * cos (vec3_x l) * sin (vec3_y l))
                   ((r + vec3_z l) * sin (vec3_x l))),
      radiusEquator = r\<rparr>"

subsection \<open>What the claims about the trackball speak of\<close>



text \<open>
  A trackball before its constructor runs, for concrete evaluations: a camera with a
  \<open>LookAt\<close> ten units up the z axis that looks at the origin, a render area of 800 by 600,
  no ellipsoid model, and the space key as home key.
\<close>

definition sample_trackball :: GlobeTrackball where
  "sample_trackball =
     \<lparr>views = [\<lparr>eye = Vec3 0 0 10, center = Vec3 0 0 0, up = Vec3 0 1 0\<rparr>],
      camera_viewMatrix = LookAtRef 0,
      camera_renderArea = \<lparr>offset_x = 0, offset_y = 0, extent_width = 800, extent_height = 600\<rparr>,
      ellipsoidModel = None,
      lookAt = 0,
      homeLookAt = None,
      hasFocus = False,
      lastPointerEventWithinRenderArea = False,
      updateMode = INACTIVE,
      zoomPreviousRatio = 0,
      pan_delta = Vec2 0 0,
      rotateAngle = 0,
      rotateAxis = Vec3 0 0 0,
      homeKey = 32,
      prev_ndc = Vec2 0 0,
      prev_tbc = Vec3 0 0 0,
      first_frame = True,
      prev_time = 0\<rparr>"


text \<open>
  The altitude of a point over the ellipsoid, and what is asked of an ellipsoid model:
  converting a position (a latitude and longitude that the model itself gave, with any
  altitude from 0 up) to Cartesian coordinates and back gives that altitude again.
\<close>

definition altitude :: "EllipsoidModel \<Rightarrow> vec3 \<Rightarrow> real" where
  "altitude m p = vec3_z (convertECEFToLatLongAltitude m p)"

definition altitude_roundtrip :: "EllipsoidModel \<Rightarrow> bool" where
  "altitude_roundtrip m =
     (\<forall>p h. 0 \<le> h \<longrightarrow>
        altitude m (convertLatLongAltitudeToECEF m
                      (Vec3 (vec3_x (convertECEFToLatLongAltitude m p))
                            (vec3_y (convertECEFToLatLongAltitude m p)) h)) = h)"

text \<open>
  The camera is above the globe: the center is on the surface and the eye at least the
  minimum altitude over it. \<open>eye_raised m la la'\<close>: the eye of \<open>la'\<close> is the eye of
  \<open>la\<close>, raised to altitude 1 if it was below.
\<close>

definition above_globe :: "EllipsoidModel \<Rightarrow> LookAt \<Rightarrow> bool" where
  "above_globe m la = (altitude m (center la) = 0 \<and> 1 \<le> altitude m (eye la))"

definition eye_raised :: "EllipsoidModel \<Rightarrow> LookAt \<Rightarrow> LookAt \<Rightarrow> bool" where
  "eye_raised m la la' =
     (if altitude m (eye la) < 1 then altitude m (eye la') = 1 else eye la' = eye la)"

text \<open>
  In \<open>pan\<close> with an ellipsoid model: the vector \<open>v\<close> whose length over the radius is the
  angle, and the LookAt after the three assignments, before \<open>clampToGlobe\<close>.
\<close>

definition pan_v :: "'m vsg_maths \<Rightarrow> LookAt \<Rightarrow> vec2 \<Rightarrow> vec3" where
  "pan_v ops la delta =
     (let lookVector = center la - eye la;
          lookNormal = vsg_normalize ops lookVector;
          sideNormal = cross lookNormal (up la);
          scale = length3 lookVector * 0.3;
          mv = scale3 (up la) (- scale * vec2_y delta) + scale3 sideNormal (scale * vec2_x delta)
      in mv + scale3 lookNormal (dot mv (vsg_normalize ops (center la))))"

definition pan_move :: "'m vsg_maths \<Rightarrow> LookAt \<Rightarrow> vec2 \<Rightarrow> real \<Rightarrow> LookAt" where
  "pan_move ops la delta angle =
     (let globeNormal = vsg_normalize ops (center la);
          n = vsg_normalize ops (center la + pan_v ops la delta);
          axis = vsg_normalize ops (cross globeNormal n);
          matrix = vsg_rotate ops (- angle) axis;
          la1 = la\<lparr>up := vsg_normalize ops
                          (vsg_transform ops matrix (eye la + up la)
                           - vsg_transform ops matrix (eye la))\<rparr>;
          la2 = la1\<lparr>center := vsg_transform ops matrix (center la1)\<rparr>
      in la2\<lparr>eye := vsg_transform ops matrix (eye la2)\<rparr>)"

text \<open>
  A camera on the z axis, 10 units over the unit sphere, that looks straight down at the
  point of the surface below it, with the y axis up.
\<close>

definition sample_lookAt :: LookAt where
  "sample_lookAt = \<lparr>eye = Vec3 0 0 11, center = Vec3 0 0 1, up = Vec3 0 1 0\<rparr>"

text \<open>
  A trackball before its constructor runs, on that camera and with the unit sphere as
  ellipsoid model.
\<close>

definition globe_trackball :: GlobeTrackball where
  "globe_trackball =
     sample_trackball\<lparr>views := [sample_lookAt], ellipsoidModel := Some (sphere_model 1)\<rparr>"



section \<open>Properties of the geometry builder\<close>

lemma alloc_simps:
  "fst (alloc ob b) = length (heap b)"
  "heap (snd (alloc ob b)) = heap b @ [ob]"
  "boxes (snd (alloc ob b)) = boxes b"
  by (simp_all add: alloc_def)

lemma createGraphicsPipeline_boxes:
  "boxes (snd (createGraphicsPipeline b)) = boxes b"
  by (simp add: createGraphicsPipeline_def alloc_def print_line_def Let_def split: option.splits)

lemma createGraphicsPipeline_heap:
  "\<exists>xs. heap (snd (createGraphicsPipeline b)) = heap b @ xs"
  by (simp add: createGraphicsPipeline_def alloc_def print_line_def Let_def split: option.splits)

lemma createGraphicsPipeline_geometryType:
  "geometryType (snd (createGraphicsPipeline b)) = geometryType b"
  by (simp add: createGraphicsPipeline_def alloc_def print_line_def Let_def split: option.splits)

lemma createTexture_boxes:
  "boxes (snd (createTexture b info)) = boxes b"
  by (simp add: createTexture_def alloc_def Let_def split: option.splits prod.splits)

lemma createTexture_heap:
  "\<exists>xs. heap (snd (createTexture b info)) = heap b @ xs"
  by (auto simp add: createTexture_def alloc_def Let_def split: option.splits prod.splits)

lemma createTexture_geometryType:
  "geometryType (snd (createTexture b info)) = geometryType b"
  by (simp add: createTexture_def alloc_def Let_def split: option.splits prod.splits)

lemma StateGroup_add_heap:
  "heap b = h @ StateGroup st ch # xs \<Longrightarrow>
   heap (StateGroup_add (length h) c b) = h @ StateGroup (st @ [c]) ch # xs"
  by (simp add: StateGroup_add_def)

lemma StateGroup_addChild_heap:
  "heap b = h @ StateGroup st ch # xs \<Longrightarrow>
   heap (StateGroup_addChild (length h) n b) = h @ StateGroup st (ch @ [n]) # xs"
  by (simp add: StateGroup_addChild_def)

lemma StateGroup_add_boxes: "boxes (StateGroup_add a c b) = boxes b"
  and StateGroup_addChild_boxes: "boxes (StateGroup_addChild a n b) = boxes b"
  and StateGroup_add_geometryType: "geometryType (StateGroup_add a c b) = geometryType b"
  by (simp_all add: StateGroup_add_def StateGroup_addChild_def)

lemma compile_frame:
  "heap (compile a b) = heap b" "boxes (compile a b) = boxes b"
  by (simp_all add: compile_def print_line_def Let_def)

lemma createBox_new_result:
  "\<exists>st xs b'. createBox_new b info = (Some (length (heap b)), b') \<and>
      heap b' = heap b @ StateGroup st [box_drawCommands info] # xs \<and>
      boxes b' = (boxes b)(info \<mapsto> Some (length (heap b)))"
proof -
  define b1 where "b1 = print_line ''new createBox()'' b"
  define b2 where "b2 = snd (alloc (StateGroup [] []) b1)"
  define sg where "sg = length (heap b)"
  define pipeline where "pipeline = fst (createGraphicsPipeline b2)"
  define b3 where "b3 = snd (createGraphicsPipeline b2)"
  define b4 where "b4 = StateGroup_add sg pipeline b3"
  define tex where "tex = fst (createTexture b4 info)"
  define b5 where "b5 = snd (createTexture b4 info)"
  define b6 where "b6 = StateGroup_add sg (Some tex) b5"
  define b7 where "b7 = StateGroup_addChild sg (box_drawCommands info) b6"
  define b8 where "b8 = compile sg b7"
  have res: "createBox_new b info = (Some sg, b8\<lparr>boxes := (boxes b8)(info \<mapsto> Some sg)\<rparr>)"
    by (simp add: createBox_new_def Let_def split_beta alloc_def b1_def b2_def sg_def
        pipeline_def b3_def b4_def tex_def b5_def b6_def b7_def b8_def print_line_def)
  have h2: "heap b2 = heap b @ StateGroup [] [] # []"
    by (simp add: b2_def b1_def alloc_def print_line_def)
  obtain xs where h3: "heap b3 = heap b @ StateGroup [] [] # xs"
    using createGraphicsPipeline_heap [of b2] h2 by (auto simp: b3_def)
  have h4: "heap b4 = heap b @ StateGroup [pipeline] [] # xs"
    using StateGroup_add_heap [OF h3] by (simp add: b4_def sg_def)
  obtain ys where h5: "heap b5 = heap b @ StateGroup [pipeline] [] # ys"
    using createTexture_heap [of b4 info] h4 by (auto simp: b5_def)
  have h6: "heap b6 = heap b @ StateGroup [pipeline, Some tex] [] # ys"
    using StateGroup_add_heap [OF h5] by (simp add: b6_def sg_def)
  have h7: "heap b7 = heap b @ StateGroup [pipeline, Some tex] [box_drawCommands info] # ys"
    using StateGroup_addChild_heap [OF h6] by (simp add: b7_def sg_def)
  have h8: "heap b8 = heap b @ StateGroup [pipeline, Some tex] [box_drawCommands info] # ys"
    using h7 by (simp add: b8_def compile_frame)
  have bx: "boxes b8 = boxes b"
    by (simp add: b8_def b7_def b6_def b5_def b4_def b3_def b2_def b1_def compile_frame
        StateGroup_add_boxes StateGroup_addChild_boxes createTexture_boxes
        createGraphicsPipeline_boxes alloc_simps print_line_def)
  show ?thesis
    using res h8 bx by (simp add: sg_def)
qed

lemma corners_eq:
  "v000 info = corner info False False False"
  "v100 info = corner info True False False"
  "v110 info = corner info True True False"
  "v010 info = corner info False True False"
  "v001 info = corner info False False True"
  "v101 info = corner info True False True"
  "v111 info = corner info True True True"
  "v011 info = corner info False True True"
  by (simp_all add: v000_def v100_def v110_def v010_def v001_def v101_def v111_def v011_def
      corner_def plus_vec3_def)

lemma length_box_vertices: "length (box_vertices info) = 24"
  by (simp add: box_vertices_def)

lemma set_box_vertices: "set (box_vertices info) = box_corners info"
  by (auto simp add: box_vertices_def box_corners_def corners_eq)

lemma box_vertices_faces:
  "f < 6 \<Longrightarrow> set (take 4 (drop (4 * f) (box_vertices info))) = face_corners info (box_faces ! f)"
proof -
  assume "f < 6"
  then consider "f = 0" | "f = 1" | "f = 2" | "f = 3" | "f = 4" | "f = 5" by linarith
  then show ?thesis
    by cases (auto simp add: box_vertices_def box_faces_def face_corners_def on_face_def corners_eq)
qed

lemma box_indices_facts:
  "length box_indices = 36" "\<forall>i \<in> set box_indices. unat i < 24"
  by (simp_all add: box_indices_def)

lemma boxes_built_new: "boxes_built (Builder_new v gt sf)"
  by (simp add: boxes_built_def Builder_new_def)

lemma boxes_built_print_line: "boxes_built (print_line s b) = boxes_built b"
  by (simp add: boxes_built_def print_line_def)

lemma boxes_built_null_entry:
  "boxes_built b \<Longrightarrow> boxes_built (b\<lparr>boxes := (boxes b)(info \<mapsto> None)\<rparr>)"
  by (simp add: boxes_built_def)

lemma createBox_new_returns_box:
  assumes "boxes_built b"
  shows "\<exists>st. fst (createBox_new b info) = Some (length (heap b)) \<and>
      length (heap b) < length (heap (snd (createBox_new b info))) \<and>
      heap (snd (createBox_new b info)) ! length (heap b) = StateGroup st [box_drawCommands info]"
    and "boxes_built (snd (createBox_new b info))"
proof -
  obtain st xs b' where r: "createBox_new b info = (Some (length (heap b)), b')"
    and h: "heap b' = heap b @ StateGroup st [box_drawCommands info] # xs"
    and bx: "boxes b' = (boxes b)(info \<mapsto> Some (length (heap b)))"
    using createBox_new_result [of b info] by blast
  show "\<exists>st. fst (createBox_new b info) = Some (length (heap b)) \<and>
      length (heap b) < length (heap (snd (createBox_new b info))) \<and>
      heap (snd (createBox_new b info)) ! length (heap b) = StateGroup st [box_drawCommands info]"
    using r h by simp
  show "boxes_built (snd (createBox_new b info))"
    unfolding boxes_built_def
  proof (intro allI impI)
    fix info' a
    assume e: "boxes (snd (createBox_new b info)) info' = Some (Some a)"
    show "a < length (heap (snd (createBox_new b info))) \<and>
          is_box_subgraph (heap (snd (createBox_new b info)) ! a) info'"
    proof (cases "info' = info")
      case True
      then have "a = length (heap b)" using e r bx by simp
      then show ?thesis using r h True by (simp add: is_box_subgraph_def)
    next
      case False
      then have "boxes b info' = Some (Some a)" using e r bx by simp
      then have "a < length (heap b)" "is_box_subgraph (heap b ! a) info'"
        using assms by (auto simp: boxes_built_def)
      then show ?thesis using r h by (simp add: nth_append)
    qed
  qed
qed

lemma createBox_returns_box:
  assumes "boxes_built b"
  shows "\<exists>a st. fst (createBox b info) = Some a \<and>
      a < length (heap (snd (createBox b info))) \<and>
      heap (snd (createBox b info)) ! a = StateGroup st [box_drawCommands info]"
proof (cases "boxes b info")
  case None
  then show ?thesis
    using createBox_new_returns_box(1) [OF boxes_built_null_entry [OF assms], of info info]
    by (auto simp add: createBox_def)
next
  case (Some r)
  show ?thesis
  proof (cases r)
    case None
    then show ?thesis
      using Some createBox_new_returns_box(1) [OF assms, of info]
      by (auto simp add: createBox_def)
  next
    case (Some a)
    then have "a < length (heap b)" "is_box_subgraph (heap b ! a) info"
      using \<open>boxes b info = Some r\<close> assms by (auto simp: boxes_built_def)
    then show ?thesis
      using Some \<open>boxes b info = Some r\<close>
      by (auto simp add: createBox_def print_line_def is_box_subgraph_def split: object.splits)
  qed
qed

lemma createBox_boxes_built:
  assumes "boxes_built b"
  shows "boxes_built (snd (createBox b info))"
proof (cases "boxes b info")
  case None
  then show ?thesis
    using createBox_new_returns_box(2) [OF boxes_built_null_entry [OF assms], of info info]
    by (simp add: createBox_def)
next
  case (Some r)
  then show ?thesis
    using createBox_new_returns_box(2) [OF assms, of info] assms
    by (cases r) (simp_all add: createBox_def boxes_built_print_line)
qed

lemma createBox_stores:
  "boxes (snd (createBox b info)) info = Some (fst (createBox b info)) \<and>
   fst (createBox b info) \<noteq> None"
proof -
  obtain st xs b' where r: "createBox_new b info = (Some (length (heap b)), b')"
    and bx: "boxes b' = (boxes b)(info \<mapsto> Some (length (heap b)))"
    using createBox_new_result [of b info] by blast
  obtain st2 xs2 b2 where r2: "createBox_new (b\<lparr>boxes := (boxes b)(info \<mapsto> None)\<rparr>) info =
        (Some (length (heap b)), b2)"
    and bx2: "boxes b2 = (boxes b)(info \<mapsto> Some (length (heap b)))"
    using createBox_new_result [of "b\<lparr>boxes := (boxes b)(info \<mapsto> None)\<rparr>" info] by auto
  show ?thesis
    using r bx r2 bx2
    by (auto simp add: createBox_def print_line_def split: option.splits)
qed

lemma createBox_hit:
  "boxes b info = Some (Some a) \<Longrightarrow> createBox b info = (Some a, print_line ''reused createBox()'' b)"
  by (simp add: createBox_def)

text \<open>
  C4: calling \<open>createBox\<close> twice with the same descriptor. The second call returns the
  node that the first call returned and left in the cache under that descriptor; it builds
  nothing (the heap and the cache are as the first call left them) and only prints that
  the node is reused.
\<close>

theorem createBox_twice_same_node:
  "fst (createBox (snd (createBox b info)) info) = fst (createBox b info) \<and>
   fst (createBox b info) \<noteq> None \<and>
   boxes (snd (createBox b info)) info = Some (fst (createBox b info)) \<and>
   heap (snd (createBox (snd (createBox b info)) info)) = heap (snd (createBox b info)) \<and>
   boxes (snd (createBox (snd (createBox b info)) info)) = boxes (snd (createBox b info)) \<and>
   cout (snd (createBox (snd (createBox b info)) info)) =
     cout (snd (createBox b info)) @ [''reused createBox()'']"
proof -
  obtain a where a: "fst (createBox b info) = Some a"
    using createBox_stores [of b info] by auto
  then have "boxes (snd (createBox b info)) info = Some (Some a)"
    using createBox_stores [of b info] by simp
  from createBox_hit [OF this] a createBox_stores [of b info]
  show ?thesis by (simp add: print_line_def)
qed

lemma createQuad_new_result:
  "\<exists>st xs b'. createQuad_new b info = (Some (length (heap b)), b') \<and>
      heap b' = heap b @ StateGroup st [quad_geometry (geometryType b) info] # xs \<and>
      boxes b' = boxes b"
proof -
  define b1 where "b1 = print_line ''new createQuad()'' b"
  define b2 where "b2 = snd (alloc (StateGroup [] []) b1)"
  define sg where "sg = length (heap b)"
  define pipeline where "pipeline = fst (createGraphicsPipeline b2)"
  define b3 where "b3 = snd (createGraphicsPipeline b2)"
  define b4 where "b4 = StateGroup_add sg pipeline b3"
  define tex where "tex = fst (createTexture b4 info)"
  define b5 where "b5 = snd (createTexture b4 info)"
  define b6 where "b6 = StateGroup_add sg (Some tex) b5"
  define b7 where "b7 = StateGroup_addChild sg (quad_geometry (geometryType b6) info) b6"
  define b8 where "b8 = compile sg b7"
  have res: "createQuad_new b info = (Some sg, b8)"
    by (simp add: createQuad_new_def Let_def split_beta alloc_def b1_def b2_def sg_def
        pipeline_def b3_def b4_def tex_def b5_def b6_def b7_def b8_def print_line_def)
  have gt: "geometryType b6 = geometryType b"
    by (simp add: b6_def b5_def b4_def b3_def b2_def b1_def StateGroup_add_geometryType
        createTexture_geometryType createGraphicsPipeline_geometryType alloc_def print_line_def)
  have h2: "heap b2 = heap b @ StateGroup [] [] # []"
    by (simp add: b2_def b1_def alloc_def print_line_def)
  obtain xs where h3: "heap b3 = heap b @ StateGroup [] [] # xs"
    using createGraphicsPipeline_heap [of b2] h2 by (auto simp: b3_def)
  have h4: "heap b4 = heap b @ StateGroup [pipeline] [] # xs"
    using StateGroup_add_heap [OF h3] by (simp add: b4_def sg_def)
  obtain ys where h5: "heap b5 = heap b @ StateGroup [pipeline] [] # ys"
    using createTexture_heap [of b4 info] h4 by (auto simp: b5_def)
  have h6: "heap b6 = heap b @ StateGroup [pipeline, Some tex] [] # ys"
    using StateGroup_add_heap [OF h5] by (simp add: b6_def sg_def)
  have h7: "heap b7 =
      heap b @ StateGroup [pipeline, Some tex] [quad_geometry (geometryType b) info] # ys"
    using StateGroup_addChild_heap [OF h6] by (simp add: b7_def sg_def gt)
  have h8: "heap b8 =
      heap b @ StateGroup [pipeline, Some tex] [quad_geometry (geometryType b) info] # ys"
    using h7 by (simp add: b8_def compile_frame)
  have bx: "boxes b8 = boxes b"
    by (simp add: b8_def b7_def b6_def b5_def b4_def b3_def b2_def b1_def compile_frame
        StateGroup_add_boxes StateGroup_addChild_boxes createTexture_boxes
        createGraphicsPipeline_boxes alloc_simps print_line_def)
  show ?thesis
    using res h8 bx by (simp add: sg_def)
qed

text \<open>A miss of createQuad: fresh node, and the cache keeps only a null entry.\<close>

lemma createQuad_miss:
  assumes "\<forall>a. boxes b info \<noteq> Some (Some a)"
  shows "\<exists>st xs. fst (createQuad b info) = Some (length (heap b)) \<and>
      heap (snd (createQuad b info)) =
        heap b @ StateGroup st [quad_geometry (geometryType b) info] # xs \<and>
      boxes (snd (createQuad b info)) = (boxes b)(info \<mapsto> None)"
proof (cases "boxes b info")
  case None
  obtain st xs b' where "createQuad_new (b\<lparr>boxes := (boxes b)(info \<mapsto> None)\<rparr>) info =
        (Some (length (heap b)), b')"
    "heap b' = heap b @ StateGroup st [quad_geometry (geometryType b) info] # xs"
    "boxes b' = (boxes b)(info \<mapsto> None)"
    using createQuad_new_result [of "b\<lparr>boxes := (boxes b)(info \<mapsto> None)\<rparr>" info] by auto
  then show ?thesis using None by (simp add: createQuad_def)
next
  case (Some r)
  then have r: "r = None" using assms by (cases r) auto
  obtain st xs b' where "createQuad_new b info = (Some (length (heap b)), b')"
    "heap b' = heap b @ StateGroup st [quad_geometry (geometryType b) info] # xs"
    "boxes b' = boxes b"
    using createQuad_new_result [of b info] by auto
  moreover have "(boxes b)(info \<mapsto> None) = boxes b" using Some r by auto
  ultimately show ?thesis using Some r by (simp add: createQuad_def)
qed

lemma createQuad_rebuilds:
  assumes "\<forall>a. boxes b info \<noteq> Some (Some a)"
  shows "fst (createQuad (snd (createQuad b info)) info) \<noteq> fst (createQuad b info)"
proof -
  obtain st xs where 1: "fst (createQuad b info) = Some (length (heap b))"
    "heap (snd (createQuad b info)) =
        heap b @ StateGroup st [quad_geometry (geometryType b) info] # xs"
    "boxes (snd (createQuad b info)) = (boxes b)(info \<mapsto> None)"
    using createQuad_miss [OF assms] by blast
  have "\<forall>a. boxes (snd (createQuad b info)) info \<noteq> Some (Some a)" using 1 by simp
  from createQuad_miss [OF this] 1 show ?thesis by auto
qed

lemma createQuad_boxes_built:
  assumes "boxes_built b"
  shows "boxes_built (snd (createQuad b info))"
proof (cases "\<exists>a. boxes b info = Some (Some a)")
  case True
  then show ?thesis using assms by (auto simp add: createQuad_def boxes_built_print_line)
next
  case False
  then obtain st xs where 1:
    "heap (snd (createQuad b info)) =
        heap b @ StateGroup st [quad_geometry (geometryType b) info] # xs"
    "boxes (snd (createQuad b info)) = (boxes b)(info \<mapsto> None)"
    using createQuad_miss [of b info] by auto
  show ?thesis
    unfolding boxes_built_def
  proof (intro allI impI)
    fix info' a
    assume "boxes (snd (createQuad b info)) info' = Some (Some a)"
    then have "boxes b info' = Some (Some a)" using 1 by (auto split: if_splits)
    then have "a < length (heap b)" "is_box_subgraph (heap b ! a) info'"
      using assms by (auto simp: boxes_built_def)
    then show "a < length (heap (snd (createQuad b info))) \<and>
          is_box_subgraph (heap (snd (createQuad b info)) ! a) info'"
      using 1 by (simp add: nth_append)
  qed
qed

text \<open>
  C3: calling \<open>createQuad\<close> twice with the same descriptor, on a fresh builder. The
  first call builds the node at address 0 and leaves a null entry in the cache; the second
  call does not find it and builds a second node, at address 6. The claim expects the
  second call to return the first node.
\<close>

theorem createQuad_twice_builds_twice:
  "fst (createQuad (Builder_new False DRAW_INDEXED_COMMANDS True) unit_box) = Some 0 \<and>
   boxes (snd (createQuad (Builder_new False DRAW_INDEXED_COMMANDS True) unit_box)) unit_box
     = Some None \<and>
   fst (createQuad (snd (createQuad (Builder_new False DRAW_INDEXED_COMMANDS True) unit_box))
          unit_box) = Some 6 \<and>
   cout (snd (createQuad (snd (createQuad (Builder_new False DRAW_INDEXED_COMMANDS True) unit_box))
          unit_box)) =
     [''new createQuad()'', ''Builder::_initGraphicsPipeline()'', ''new createQuad()'']"
  by (simp add: createQuad_def createQuad_new_def Builder_new_def unit_box_def alloc_def
      print_line_def createGraphicsPipeline_def createTexture_def StateGroup_add_def
      StateGroup_addChild_def compile_def Let_def)


text \<open>
  C7: the subgraph that \<open>createBox\<close> returns. On a builder whose cache holds only
  subgraphs built by \<open>createBox\<close> (as it does from construction on), the returned node
  is a state group with one child, the commands: the vertex buffers, the index buffer and a
  single \<open>DrawIndexed\<close> of 36 indices. The vertex array has 24 entries, which are the
  8 corners of the box at \<open>info.position\<close> with extents \<open>info.dimensions\<close>; each
  group of 4 consecutive entries is the 4 corners of one face, the 6 groups being the 6
  faces; the index array has 36 entries, each below 24.
\<close>

theorem createBox_builds_box_mesh:
  assumes "boxes_built b"
  shows "\<exists>a st vs cs ts ixs.
      fst (createBox b info) = Some a \<and>
      a < length (heap (snd (createBox b info))) \<and>
      heap (snd (createBox b info)) ! a =
        StateGroup st
          [Commands [BindVertexBuffers 0 [Vec3Array vs, Vec3Array cs, Vec2Array ts],
                     BindIndexBuffer (UShortArray ixs),
                     DrawIndexed 36 1 0 0 0]] \<and>
      length vs = 24 \<and> set vs = box_corners info \<and>
      length box_faces = 6 \<and> distinct box_faces \<and>
      (\<forall>f<6. set (take 4 (drop (4 * f) vs)) = face_corners info (box_faces ! f)) \<and>
      length ixs = 36 \<and> (\<forall>i \<in> set ixs. unat i < 24)"
proof -
  obtain a st where a: "fst (createBox b info) = Some a"
    "a < length (heap (snd (createBox b info)))"
    "heap (snd (createBox b info)) ! a = StateGroup st [box_drawCommands info]"
    using createBox_returns_box [OF assms, of info] by blast
  have f: "length box_faces = 6" "distinct box_faces"
    by (simp_all add: box_faces_def)
  show ?thesis
    using a f length_box_vertices [of info] set_box_vertices [of info]
      box_vertices_faces [of _ info] box_indices_facts
    by (simp add: box_drawCommands_def)
qed

theorem createBox_builds_box_mesh_witness:
  "boxes_built (Builder_new False DRAW_INDEXED_COMMANDS True) \<and>
   (\<exists>a st vs cs ts ixs.
      fst (createBox (Builder_new False DRAW_INDEXED_COMMANDS True) unit_box) = Some a \<and>
      a < length (heap (snd (createBox (Builder_new False DRAW_INDEXED_COMMANDS True) unit_box))) \<and>
      heap (snd (createBox (Builder_new False DRAW_INDEXED_COMMANDS True) unit_box)) ! a =
        StateGroup st
          [Commands [BindVertexBuffers 0 [Vec3Array vs, Vec3Array cs, Vec2Array ts],
                     BindIndexBuffer (UShortArray ixs),
                     DrawIndexed 36 1 0 0 0]] \<and>
      length vs = 24 \<and> set vs = box_corners unit_box \<and>
      length box_faces = 6 \<and> distinct box_faces \<and>
      (\<forall>f<6. set (take 4 (drop (4 * f) vs)) = face_corners unit_box (box_faces ! f)) \<and>
      length ixs = 36 \<and> (\<forall>i \<in> set ixs. unat i < 24)) \<and>
   fst (createBox (Builder_new False DRAW_INDEXED_COMMANDS True) unit_box) = Some 0 \<and>
   box_vertices unit_box ! 6 = Vec3 1 1 1"
proof -
  have "fst (createBox (Builder_new False DRAW_INDEXED_COMMANDS True) unit_box) = Some 0"
    by (simp add: createBox_def createBox_new_def Builder_new_def unit_box_def alloc_def
        print_line_def createGraphicsPipeline_def createTexture_def StateGroup_add_def
        StateGroup_addChild_def compile_def Let_def)
  moreover have "box_vertices unit_box ! 6 = Vec3 1 1 1"
    by (simp add: box_vertices_def v111_def unit_box_def plus_vec3_def)
  ultimately show ?thesis
  using createBox_builds_box_mesh [OF boxes_built_new, of False DRAW_INDEXED_COMMANDS True unit_box]
    boxes_built_new [of False DRAW_INDEXED_COMMANDS True]
  by blast
qed

subsection \<open>The expansion loop of createQuad\<close>

declare expand_loop.simps [simp del]

lemma expand_loop_result:
  assumes "length ev = length indices" "length ec = length indices" "length et = length indices"
  shows "case expand_loop i indices vertices colors texcoords (ev, ec, et) of (ev', ec', et') \<Rightarrow>
     length ev' = length indices \<and> length ec' = length indices \<and> length et' = length indices \<and>
     (\<forall>k < length indices.
        (i \<le> k \<longrightarrow> ev' ! k = vertices ! unat (indices ! k) \<and>
                     ec' ! k = colors ! unat (indices ! k) \<and>
                     et' ! k = texcoords ! unat (indices ! k)) \<and>
        (k < i \<longrightarrow> ev' ! k = ev ! k \<and> ec' ! k = ec ! k \<and> et' ! k = et ! k))"
  using assms
proof (induction i indices vertices colors texcoords "(ev, ec, et)" arbitrary: ev ec et
    rule: expand_loop.induct)
  case (1 i indices vertices colors texcoords ev ec et)
  show ?case
  proof (cases "i < length indices")
    case False
    then show ?thesis using "1.prems" by (simp add: expand_loop.simps)
  next
    case True
    let ?ev = "ev[i := vertices ! unat (indices ! i)]"
    let ?ec = "ec[i := colors ! unat (indices ! i)]"
    let ?et = "et[i := texcoords ! unat (indices ! i)]"
    have ih: "case expand_loop (Suc i) indices vertices colors texcoords (?ev, ?ec, ?et) of
       (ev', ec', et') \<Rightarrow>
     length ev' = length indices \<and> length ec' = length indices \<and> length et' = length indices \<and>
     (\<forall>k < length indices.
        (Suc i \<le> k \<longrightarrow> ev' ! k = vertices ! unat (indices ! k) \<and>
                     ec' ! k = colors ! unat (indices ! k) \<and>
                     et' ! k = texcoords ! unat (indices ! k)) \<and>
        (k < Suc i \<longrightarrow> ev' ! k = ?ev ! k \<and> ec' ! k = ?ec ! k \<and> et' ! k = ?et ! k))"
      using "1.hyps" [OF True] "1.prems" by simp
    obtain ev' ec' et' where r:
      "expand_loop (Suc i) indices vertices colors texcoords (?ev, ?ec, ?et) = (ev', ec', et')"
      by (metis prod_cases3)
    have e: "expand_loop i indices vertices colors texcoords (ev, ec, et) = (ev', ec', et')"
      using True r by (subst expand_loop.simps) simp
    from ih have L: "length ev' = length indices" "length ec' = length indices"
        "length et' = length indices"
      and K: "\<And>k. k < length indices \<Longrightarrow> Suc i \<le> k \<Longrightarrow>
          ev' ! k = vertices ! unat (indices ! k) \<and> ec' ! k = colors ! unat (indices ! k) \<and>
          et' ! k = texcoords ! unat (indices ! k)"
      and J: "\<And>k. k < length indices \<Longrightarrow> k < Suc i \<Longrightarrow>
          ev' ! k = ?ev ! k \<and> ec' ! k = ?ec ! k \<and> et' ! k = ?et ! k"
      unfolding r by simp_all
    have A: "ev' ! k = vertices ! unat (indices ! k) \<and> ec' ! k = colors ! unat (indices ! k) \<and>
          et' ! k = texcoords ! unat (indices ! k)" if "k < length indices" "i \<le> k" for k
    proof (cases "k = i")
      case True
      then show ?thesis using J [of i] "1.prems" that by simp
    next
      case False
      then show ?thesis using K [of k] that by simp
    qed
    have B: "ev' ! k = ev ! k \<and> ec' ! k = ec ! k \<and> et' ! k = et ! k"
      if "k < length indices" "k < i" for k
      using J [of k] that by simp
    show ?thesis
      unfolding e using L A B by simp
  qed
qed

lemma quad_indices_in_range:
  "\<forall>i \<in> set quad_indices. unat i < length (quad_vertices info) \<and>
      unat i < length quad_colors \<and> unat i < length quad_texcoords"
  by (simp add: quad_indices_def quad_vertices_def quad_colors_def quad_texcoords_def)

lemma quad_expanded:
  "\<exists>ev ec et.
     quad_geometry DRAW_COMMANDS info =
       Commands [BindVertexBuffers 0 [Vec3Array ev, Vec3Array ec, Vec2Array et], Draw 6 1 0 0] \<and>
     length ev = 6 \<and> length ec = 6 \<and> length et = 6 \<and>
     (\<forall>i<6. ev ! i = quad_vertices info ! unat (quad_indices ! i) \<and>
             ec ! i = quad_colors ! unat (quad_indices ! i) \<and>
             et ! i = quad_texcoords ! unat (quad_indices ! i))"
proof -
  have n: "length quad_indices = 6" by (simp add: quad_indices_def)
  obtain ev ec et where r:
    "expand_loop 0 quad_indices (quad_vertices info) quad_colors quad_texcoords
       (replicate (length quad_indices) 0, replicate (length quad_indices) 0,
        replicate (length quad_indices) 0) = (ev, ec, et)"
    by (metis prod_cases3)
  have "case expand_loop 0 quad_indices (quad_vertices info) quad_colors quad_texcoords
       (replicate (length quad_indices) 0, replicate (length quad_indices) 0,
        replicate (length quad_indices) 0) of (ev', ec', et') \<Rightarrow>
     length ev' = length quad_indices \<and> length ec' = length quad_indices \<and>
     length et' = length quad_indices \<and>
     (\<forall>k < length quad_indices.
        (0 \<le> k \<longrightarrow> ev' ! k = quad_vertices info ! unat (quad_indices ! k) \<and>
                     ec' ! k = quad_colors ! unat (quad_indices ! k) \<and>
                     et' ! k = quad_texcoords ! unat (quad_indices ! k)) \<and>
        (k < 0 \<longrightarrow> ev' ! k = replicate (length quad_indices) 0 ! k \<and>
                   ec' ! k = replicate (length quad_indices) 0 ! k \<and>
                   et' ! k = replicate (length quad_indices) 0 ! k))"
    by (rule expand_loop_result) simp_all
  then have p: "length ev = 6" "length ec = 6" "length et = 6"
    "\<forall>i<6. ev ! i = quad_vertices info ! unat (quad_indices ! i) \<and>
             ec ! i = quad_colors ! unat (quad_indices ! i) \<and>
             et ! i = quad_texcoords ! unat (quad_indices ! i)"
    using r by (simp_all add: n)
  have "quad_geometry DRAW_COMMANDS info =
       Commands [BindVertexBuffers 0 [Vec3Array ev, Vec3Array ec, Vec2Array et], Draw 6 1 0 0]"
    using r p(1) by (simp add: quad_geometry_def)
  then show ?thesis using p by blast
qed

lemma upt6: "[0..<6] = [0, 1, 2, 3, 4, 5]"
  by (simp add: upt_rec)

lemma quad_indexed_vertices:
  "node_vertices (quad_geometry DRAW_INDEXED_COMMANDS info) =
     map (\<lambda>i. Some (quad_vertices info ! unat (quad_indices ! i),
                     quad_colors ! unat (quad_indices ! i),
                     quad_texcoords ! unat (quad_indices ! i))) [0..<6]"
  by (simp add: node_vertices_def quad_geometry_def upt6)
     (simp add: quad_indices_def quad_vertices_def quad_colors_def quad_texcoords_def)

lemma quad_draw_vertices:
  "node_vertices (quad_geometry DRAW_COMMANDS info) =
     map (\<lambda>i. Some (quad_vertices info ! unat (quad_indices ! i),
                     quad_colors ! unat (quad_indices ! i),
                     quad_texcoords ! unat (quad_indices ! i))) [0..<6]"
proof -
  obtain ev ec et where q: "quad_geometry DRAW_COMMANDS info =
       Commands [BindVertexBuffers 0 [Vec3Array ev, Vec3Array ec, Vec2Array et], Draw 6 1 0 0]"
    "length ev = 6" "length ec = 6" "length et = 6"
    "\<forall>i<6. ev ! i = quad_vertices info ! unat (quad_indices ! i) \<and>
             ec ! i = quad_colors ! unat (quad_indices ! i) \<and>
             et ! i = quad_texcoords ! unat (quad_indices ! i)"
    using quad_expanded [of info] by blast
  show ?thesis
    unfolding q(1) node_vertices_def using q(2-5) by (simp add: upt6)
qed

text \<open>
  C9: the two ways \<open>createQuad\<close> draws the quad. When the cache holds no subgraph for
  the descriptor, the subgraph built with \<open>DRAW_COMMANDS\<close> binds expanded arrays of 6
  entries whose entry \<open>i\<close> is the entry \<open>indices[i]\<close> of the vertex, colour and
  texture coordinate arrays, and draws them with \<open>Draw\<close> of 6 vertices; the subgraph
  built with \<open>DRAW_INDEXED_COMMANDS\<close> binds the base arrays and the 6 indices and draws
  with \<open>DrawIndexed\<close>. Both issue the same vertex sequence.
\<close>

theorem createQuad_draw_matches_indexed:
  assumes "\<forall>a. boxes b info \<noteq> Some (Some a)"
  shows "\<exists>ev ec et.
     children (heap (snd (createQuad (b\<lparr>geometryType := DRAW_COMMANDS\<rparr>) info)) ! length (heap b)) =
       [Commands [BindVertexBuffers 0 [Vec3Array ev, Vec3Array ec, Vec2Array et], Draw 6 1 0 0]] \<and>
     children (heap (snd (createQuad (b\<lparr>geometryType := DRAW_INDEXED_COMMANDS\<rparr>) info))
                 ! length (heap b)) =
       [Commands [BindVertexBuffers 0 [Vec3Array (quad_vertices info), Vec3Array quad_colors,
                                       Vec2Array quad_texcoords],
                  BindIndexBuffer (UShortArray quad_indices),
                  DrawIndexed 6 1 0 0 0]] \<and>
     length quad_indices = 6 \<and> length ev = 6 \<and> length ec = 6 \<and> length et = 6 \<and>
     (\<forall>i<6. ev ! i = quad_vertices info ! unat (quad_indices ! i) \<and>
             ec ! i = quad_colors ! unat (quad_indices ! i) \<and>
             et ! i = quad_texcoords ! unat (quad_indices ! i)) \<and>
     map node_vertices
       (children (heap (snd (createQuad (b\<lparr>geometryType := DRAW_COMMANDS\<rparr>) info)) ! length (heap b))) =
     map node_vertices
       (children (heap (snd (createQuad (b\<lparr>geometryType := DRAW_INDEXED_COMMANDS\<rparr>) info))
                    ! length (heap b)))"
proof -
  have 1: "\<forall>a. boxes (b\<lparr>geometryType := DRAW_COMMANDS\<rparr>) info \<noteq> Some (Some a)"
    and 2: "\<forall>a. boxes (b\<lparr>geometryType := DRAW_INDEXED_COMMANDS\<rparr>) info \<noteq> Some (Some a)"
    using assms by simp_all
  have c1: "children (heap (snd (createQuad (b\<lparr>geometryType := DRAW_COMMANDS\<rparr>) info))
                ! length (heap b)) = [quad_geometry DRAW_COMMANDS info]"
    using createQuad_miss [OF 1] by (auto simp add: children_def)
  have c2: "children (heap (snd (createQuad (b\<lparr>geometryType := DRAW_INDEXED_COMMANDS\<rparr>) info))
                ! length (heap b)) = [quad_geometry DRAW_INDEXED_COMMANDS info]"
    using createQuad_miss [OF 2] by (auto simp add: children_def)
  have n: "length quad_indices = 6" by (simp add: quad_indices_def)
  have i: "quad_geometry DRAW_INDEXED_COMMANDS info =
      Commands [BindVertexBuffers 0 [Vec3Array (quad_vertices info), Vec3Array quad_colors,
                                       Vec2Array quad_texcoords],
                  BindIndexBuffer (UShortArray quad_indices),
                  DrawIndexed 6 1 0 0 0]"
    by (simp add: quad_geometry_def n)
  show ?thesis
    unfolding c1 c2 using quad_expanded [of info] i n
      quad_draw_vertices [of info] quad_indexed_vertices [of info]
    by auto
qed

theorem createQuad_draw_matches_indexed_witness:
  "(\<forall>a. boxes (Builder_new False DRAW_COMMANDS True) unit_box \<noteq> Some (Some a)) \<and>
   map node_vertices
     (children (heap (snd (createQuad (Builder_new False DRAW_COMMANDS True\<lparr>geometryType := DRAW_COMMANDS\<rparr>)
         unit_box)) ! length (heap (Builder_new False DRAW_COMMANDS True)))) =
   map node_vertices
     (children (heap (snd (createQuad
         (Builder_new False DRAW_COMMANDS True\<lparr>geometryType := DRAW_INDEXED_COMMANDS\<rparr>)
         unit_box)) ! length (heap (Builder_new False DRAW_COMMANDS True)))) \<and>
   node_vertices (quad_geometry DRAW_INDEXED_COMMANDS unit_box) =
     [Some (Vec3 0 0 0, Vec3 1 0 0, Vec2 0 0), Some (Vec3 1 0 0, Vec3 0 1 0, Vec2 1 0),
      Some (Vec3 1 1 0, Vec3 0 0 1, Vec2 1 1), Some (Vec3 1 1 0, Vec3 0 0 1, Vec2 1 1),
      Some (Vec3 0 1 0, Vec3 1 1 1, Vec2 0 1), Some (Vec3 0 0 0, Vec3 1 0 0, Vec2 0 0)]"
proof -
  have h: "\<forall>a. boxes (Builder_new False DRAW_COMMANDS True) unit_box \<noteq> Some (Some a)"
    by (simp add: Builder_new_def)
  have v: "node_vertices (quad_geometry DRAW_INDEXED_COMMANDS unit_box) =
     [Some (Vec3 0 0 0, Vec3 1 0 0, Vec2 0 0), Some (Vec3 1 0 0, Vec3 0 1 0, Vec2 1 0),
      Some (Vec3 1 1 0, Vec3 0 0 1, Vec2 1 1), Some (Vec3 1 1 0, Vec3 0 0 1, Vec2 1 1),
      Some (Vec3 0 1 0, Vec3 1 1 1, Vec2 0 1), Some (Vec3 0 0 0, Vec3 1 0 0, Vec2 0 0)]"
    by (simp add: node_vertices_def quad_geometry_def upt6 quad_indices_def quad_vertices_def
        quad_colors_def quad_texcoords_def unit_box_def plus_vec3_def)
  show ?thesis
    using createQuad_draw_matches_indexed [OF h] h v by blast
qed

subsection \<open>createSphere\<close>

text \<open>What the builder prints is only ever appended to.\<close>

lemma createGraphicsPipeline_cout:
  "\<exists>xs. cout (snd (createGraphicsPipeline b)) = cout b @ xs"
  by (simp add: createGraphicsPipeline_def alloc_def print_line_def Let_def split: option.splits)

lemma createTexture_cout: "cout (snd (createTexture b info)) = cout b"
  by (simp add: createTexture_def alloc_def Let_def split: option.splits prod.splits)

lemma StateGroup_add_cout: "cout (StateGroup_add a c b) = cout b"
  and StateGroup_addChild_cout: "cout (StateGroup_addChild a n b) = cout b"
  by (simp_all add: StateGroup_add_def StateGroup_addChild_def)

lemma compile_cout: "\<exists>xs. cout (compile a b) = cout b @ xs"
  by (simp add: compile_def print_line_def Let_def)

lemma createBox_new_cout:
  "\<exists>xs. cout (snd (createBox_new b info)) = cout b @ ''new createBox()'' # xs"
proof -
  define b1 where "b1 = print_line ''new createBox()'' b"
  define b2 where "b2 = snd (alloc (StateGroup [] []) b1)"
  define sg where "sg = length (heap b)"
  define b3 where "b3 = snd (createGraphicsPipeline b2)"
  define b4 where "b4 = StateGroup_add sg (fst (createGraphicsPipeline b2)) b3"
  define b5 where "b5 = snd (createTexture b4 info)"
  define b6 where "b6 = StateGroup_add sg (Some (fst (createTexture b4 info))) b5"
  define b7 where "b7 = StateGroup_addChild sg (box_drawCommands info) b6"
  define b8 where "b8 = compile sg b7"
  have res: "cout (snd (createBox_new b info)) = cout b8"
    by (simp add: createBox_new_def Let_def split_beta alloc_def b1_def b2_def sg_def
        b3_def b4_def b5_def b6_def b7_def b8_def print_line_def)
  have c2: "cout b2 = cout b @ [''new createBox()'']"
    by (simp add: b2_def b1_def alloc_def print_line_def)
  obtain xs where c3: "cout b3 = cout b2 @ xs"
    using createGraphicsPipeline_cout [of b2] by (auto simp: b3_def)
  have c7: "cout b7 = cout b3"
    by (simp add: b7_def b6_def b5_def b4_def StateGroup_add_cout StateGroup_addChild_cout
        createTexture_cout)
  obtain ys where c8: "cout b8 = cout b7 @ ys"
    using compile_cout [of sg b7] by (auto simp: b8_def)
  show ?thesis
    using res c2 c3 c7 c8 by simp
qed

lemma createBox_cout: "\<exists>xs. cout (snd (createBox b info)) = cout b @ xs"
proof (cases "boxes b info")
  case None
  then show ?thesis
    using createBox_new_cout [of "b\<lparr>boxes := (boxes b)(info \<mapsto> None)\<rparr>" info]
    by (auto simp add: createBox_def)
next
  case (Some r)
  then show ?thesis
    using createBox_new_cout [of b info]
    by (cases r) (auto simp add: createBox_def print_line_def)
qed

text \<open>
  C2, as amended: \<open>createSphere\<close> prints its name and hands the descriptor to
  \<open>createBox\<close>. Its line \<open>createSphere()\<close> follows what was printed before, and
  whatever comes after it is printed by \<open>createBox\<close>. What it returns is the box
  subgraph of the descriptor, with the 24 vertices at the 8 corners of the box, and it is
  the entry of the box cache for that descriptor, so a following \<open>createBox\<close> returns
  the very same node.
\<close>

theorem createSphere_builds_box:
  assumes "boxes_built b"
  shows "\<exists>a st.
      fst (createSphere b info) = Some a \<and>
      a < length (heap (snd (createSphere b info))) \<and>
      heap (snd (createSphere b info)) ! a = StateGroup st [box_drawCommands info] \<and>
      boxes (snd (createSphere b info)) info = Some (Some a) \<and>
      fst (createBox (snd (createSphere b info)) info) = Some a \<and>
      length (box_vertices info) = 24 \<and> set (box_vertices info) = box_corners info \<and>
      (\<exists>rest. cout (snd (createSphere b info)) = cout b @ ''createSphere()'' # rest \<and>
              cout (snd (createBox (print_line ''createSphere()'' b) info)) =
                cout b @ ''createSphere()'' # rest)"
proof -
  let ?b = "print_line ''createSphere()'' b"
  have bb: "boxes_built ?b" using assms by (simp add: boxes_built_print_line)
  obtain a st where a: "fst (createBox ?b info) = Some a"
    "a < length (heap (snd (createBox ?b info)))"
    "heap (snd (createBox ?b info)) ! a = StateGroup st [box_drawCommands info]"
    using createBox_returns_box [OF bb, of info] by blast
  have s: "boxes (snd (createBox ?b info)) info = Some (Some a)"
    using createBox_stores [of ?b info] a by simp
  have "fst (createBox (snd (createBox ?b info)) info) = Some a"
    using createBox_hit [OF s] by simp
  moreover have "\<exists>rest. cout (snd (createBox ?b info)) = cout b @ ''createSphere()'' # rest"
    using createBox_cout [of ?b info] by (auto simp add: print_line_def)
  ultimately show ?thesis
    using a s length_box_vertices [of info] set_box_vertices [of info]
    by (simp add: createSphere_def)
qed

theorem createSphere_builds_box_witness:
  "boxes_built (Builder_new False DRAW_INDEXED_COMMANDS True) \<and>
   (\<exists>a st.
      fst (createSphere (Builder_new False DRAW_INDEXED_COMMANDS True) unit_box) = Some a \<and>
      a < length (heap (snd (createSphere (Builder_new False DRAW_INDEXED_COMMANDS True) unit_box))) \<and>
      heap (snd (createSphere (Builder_new False DRAW_INDEXED_COMMANDS True) unit_box)) ! a =
        StateGroup st [box_drawCommands unit_box] \<and>
      boxes (snd (createSphere (Builder_new False DRAW_INDEXED_COMMANDS True) unit_box)) unit_box =
        Some (Some a) \<and>
      fst (createBox (snd (createSphere (Builder_new False DRAW_INDEXED_COMMANDS True) unit_box))
             unit_box) = Some a \<and>
      length (box_vertices unit_box) = 24 \<and> set (box_vertices unit_box) = box_corners unit_box \<and>
      (\<exists>rest. cout (snd (createSphere (Builder_new False DRAW_INDEXED_COMMANDS True) unit_box)) =
                cout (Builder_new False DRAW_INDEXED_COMMANDS True) @ ''createSphere()'' # rest \<and>
              cout (snd (createBox (print_line ''createSphere()''
                                      (Builder_new False DRAW_INDEXED_COMMANDS True)) unit_box)) =
                cout (Builder_new False DRAW_INDEXED_COMMANDS True) @ ''createSphere()'' # rest)) \<and>
   cout (snd (createSphere (Builder_new False DRAW_INDEXED_COMMANDS True) unit_box)) =
     [''createSphere()'', ''new createBox()'', ''Builder::_initGraphicsPipeline()'']"
proof -
  have "cout (snd (createSphere (Builder_new False DRAW_INDEXED_COMMANDS True) unit_box)) =
     [''createSphere()'', ''new createBox()'', ''Builder::_initGraphicsPipeline()'']"
    by (simp add: createSphere_def createBox_def createBox_new_def Builder_new_def unit_box_def
        alloc_def print_line_def createGraphicsPipeline_def createTexture_def StateGroup_add_def
        StateGroup_addChild_def compile_def Let_def)
  then show ?thesis
    using createSphere_builds_box [OF boxes_built_new, of False DRAW_INDEXED_COMMANDS True unit_box]
      boxes_built_new [of False DRAW_INDEXED_COMMANDS True]
    by blast
qed

text \<open>
  C2 as stated fails: for the unit box descriptor on a fresh builder, the mesh that
  \<open>createSphere\<close> builds is the axis-aligned unit cube that \<open>createBox\<close> builds (the
  two heaps are equal), not a mesh distinct from it.
\<close>

theorem createSphere_not_a_sphere:
  "fst (createSphere (Builder_new False DRAW_INDEXED_COMMANDS True) unit_box) = Some 0 \<and>
   heap (snd (createSphere (Builder_new False DRAW_INDEXED_COMMANDS True) unit_box)) =
     heap (snd (createBox (Builder_new False DRAW_INDEXED_COMMANDS True) unit_box)) \<and>
   children (heap (snd (createSphere (Builder_new False DRAW_INDEXED_COMMANDS True) unit_box)) ! 0) =
     [Commands
        [BindVertexBuffers 0
           [Vec3Array
              [Vec3 0 0 0, Vec3 1 0 0, Vec3 1 0 1, Vec3 0 0 1,
               Vec3 1 0 0, Vec3 1 1 0, Vec3 1 1 1, Vec3 1 0 1,
               Vec3 1 1 0, Vec3 0 1 0, Vec3 0 1 1, Vec3 1 1 1,
               Vec3 0 1 0, Vec3 0 0 0, Vec3 0 0 1, Vec3 0 1 1,
               Vec3 0 1 0, Vec3 1 1 0, Vec3 1 0 0, Vec3 0 0 0,
               Vec3 0 0 1, Vec3 1 0 1, Vec3 1 1 1, Vec3 0 1 1],
            Vec3Array (box_colors unit_box),
            Vec2Array box_texcoords],
         BindIndexBuffer (UShortArray box_indices),
         DrawIndexed 36 1 0 0 0]] \<and>
   fst (createBox (snd (createSphere (Builder_new False DRAW_INDEXED_COMMANDS True) unit_box))
          unit_box) = Some 0"
  by (simp add: createSphere_def createBox_def createBox_new_def Builder_new_def unit_box_def
      alloc_def print_line_def createGraphicsPipeline_def createTexture_def StateGroup_add_def
      StateGroup_addChild_def compile_def Let_def children_def box_drawCommands_def
      box_vertices_def v000_def v100_def v110_def v010_def v001_def v101_def
      v111_def v011_def plus_vec3_def)
     (simp add: box_indices_def unit_box_def)

section \<open>Properties of the globe trackball\<close>

lemma scale3_zero [simp]: "scale3 v 0 = 0" "scale3 0 s = 0"
  by (simp_all add: scale3_def zero_vec3_def)

lemma vec3_sel_plus [simp]:
  "vec3_x (a + b) = vec3_x a + vec3_x b"
  "vec3_y (a + b) = vec3_y a + vec3_y b"
  "vec3_z (a + b) = vec3_z a + vec3_z b"
  by (simp_all add: plus_vec3_def)

lemma vec3_sel_minus [simp]:
  "vec3_x (a - b) = vec3_x a - vec3_x b"
  "vec3_y (a - b) = vec3_y a - vec3_y b"
  "vec3_z (a - b) = vec3_z a - vec3_z b"
  by (simp_all add: minus_vec3_def)

lemma vec3_sel_zero [simp]: "vec3_x 0 = 0" "vec3_y 0 = 0" "vec3_z 0 = 0"
  by (simp_all add: zero_vec3_def)


text \<open>
  What holds of \<open>ndc\<close>: a width of zero gives the x component 0 and a height of zero
  the y component 0; the result is a vector of real numbers unless the height is zero and
  the width is not.
\<close>

lemma unsigned_real_eq_0: "(unsigned (w :: 32 word) :: real) = 0 \<longleftrightarrow> w = 0"
  by (simp add: unsigned_eq_0_iff)

lemma ndc_width_zero:
  "extent_width renderArea = 0 \<Longrightarrow> fst (ndc_components renderArea event) = Inr 0"
  by (simp add: ndc_components_def Let_def)

lemma ndc_height_zero:
  "extent_height renderArea = 0 \<Longrightarrow> snd (ndc_components renderArea event) = Inr 0"
  by (simp add: ndc_components_def Let_def)

lemma ndc_not_finite_iff:
  "ndc renderArea event = Inl NonFinite \<longleftrightarrow>
     extent_height renderArea = 0 \<and> extent_width renderArea \<noteq> 0"
  by (auto simp add: ndc_def ndc_components_def fdiv_def Let_def unsigned_real_eq_0
      word_neq_0_conv split: sum.splits)

lemma ndc_defined:
  assumes "extent_height renderArea \<noteq> 0"
  shows "\<exists>v. ndc renderArea event = Inr v"
proof (cases "ndc renderArea event")
  case (Inl e)
  then have "ndc renderArea event = Inl NonFinite" by (cases e) simp
  then show ?thesis using assms by (simp add: ndc_not_finite_iff)
next
  case (Inr v)
  then show ?thesis by simp
qed

text \<open>
  C8: \<open>ndc\<close> on a render area of width 1 and height 0. The aspect ratio
  \<open>width / height\<close> is computed before any test of the extent, here as \<open>1.0 / 0.0\<close>:
  this division is not guarded, and the x component, its product with a number, is not
  finite; the y component is 0.
\<close>

theorem ndc_divides_by_zero_height:
  "fdiv (real (unat (1 :: 32 word))) (real (unat (0 :: 32 word))) = Inl NonFinite \<and>
   ndc_components \<lparr>offset_x = 0, offset_y = 0, extent_width = 1, extent_height = 0\<rparr>
       \<lparr>pointer_handled = False, pointer_x = 0, pointer_y = 0,
        button1 = False, button2 = False, button3 = False\<rparr> = (Inl NonFinite, Inr 0) \<and>
   ndc \<lparr>offset_x = 0, offset_y = 0, extent_width = 1, extent_height = 0\<rparr>
       \<lparr>pointer_handled = False, pointer_x = 0, pointer_y = 0,
        button1 = False, button2 = False, button3 = False\<rparr> = Inl NonFinite"
  by (simp add: ndc_def ndc_components_def fdiv_def Let_def)

subsection \<open>The home position\<close>




















subsection \<open>Clamping to the globe\<close>

lemma clampToGlobe_above:
  assumes "altitude_roundtrip m"
    and "altitude m (eye la) \<noteq> altitude m (center la)"
  shows "\<exists>la'. clampToGlobe_lookAt (Some m) la = Inr la' \<and> above_globe m la' \<and>
           eye_raised m la la' \<and> up la' = up la"
proof -
  have r0: "altitude m (convertLatLongAltitudeToECEF m
                      (Vec3 (vec3_x (convertECEFToLatLongAltitude m p))
                            (vec3_y (convertECEFToLatLongAltitude m p)) 0)) = 0" for p
    using assms(1) by (simp add: altitude_roundtrip_def)
  have r1: "altitude m (convertLatLongAltitudeToECEF m
                      (Vec3 (vec3_x (convertECEFToLatLongAltitude m p))
                            (vec3_y (convertECEFToLatLongAltitude m p)) 1)) = 1" for p
    using assms(1) by (simp add: altitude_roundtrip_def)
  have d: "vec3_z (convertECEFToLatLongAltitude m (eye la))
           - vec3_z (convertECEFToLatLongAltitude m (center la)) \<noteq> 0"
    using assms(2) by (simp add: altitude_def)
  show ?thesis
    using d r0 r1
    by (simp add: clampToGlobe_lookAt_def fdiv_def Let_def above_globe_def eye_raised_def)
       (simp add: altitude_def)
qed

lemma pan_lookAt_globe:
  "pan_lookAt ops (Some m) la delta =
     (case fdiv (length3 (pan_v ops la delta)) (radiusEquator m) of
        Inl e \<Rightarrow> Inl e
      | Inr angle \<Rightarrow>
          if angle \<noteq> 0 then clampToGlobe_lookAt (Some m) (pan_move ops la delta angle)
          else Inr la)"
  by (simp add: pan_lookAt_def pan_v_def pan_move_def Let_def split: sum.splits)

lemma length3_scaled_unit:
  "length3 (Vec3 (a * c1 * c2) (a * c1 * s2) (a * s1)) =
     \<bar>a\<bar> * sqrt (c1 * c1 * (c2 * c2 + s2 * s2) + s1 * s1)"
proof -
  have "a * c1 * c2 * (a * c1 * c2) + a * c1 * s2 * (a * c1 * s2) + a * s1 * (a * s1) =
        (a * a) * (c1 * c1 * (c2 * c2 + s2 * s2) + s1 * s1)"
    by (simp add: algebra_simps)
  then show ?thesis
    by (simp add: length3_def real_sqrt_mult)
qed

lemma cos_sin_sq: "cos x * cos x + sin x * sin x = (1::real)"
  using sin_cos_squared_add2 [of x] by (simp add: power2_eq_square)

lemma sphere_model_roundtrip:
  assumes "0 \<le> r"
  shows "altitude_roundtrip (sphere_model r)"
  unfolding altitude_roundtrip_def
proof (intro allI impI)
  fix p :: vec3 and h :: real
  assume h: "0 \<le> h"
  let ?lat = "vec3_x (convertECEFToLatLongAltitude (sphere_model r) p)"
  let ?long = "vec3_y (convertECEFToLatLongAltitude (sphere_model r) p)"
  have "length3 (Vec3 ((r + h) * cos ?lat * cos ?long) ((r + h) * cos ?lat * sin ?long)
          ((r + h) * sin ?lat)) = \<bar>r + h\<bar>"
    by (simp add: length3_scaled_unit cos_sin_sq)
  then show "altitude (sphere_model r)
          (convertLatLongAltitudeToECEF (sphere_model r) (Vec3 ?lat ?long h)) = h"
    using assms h by (simp add: altitude_def sphere_model_def)
qed

lemma length3_z_axis: "length3 (Vec3 0 0 z) = \<bar>z\<bar>"
  by (simp add: length3_def)

lemma altitude_sphere_z_axis: "altitude (sphere_model r) (Vec3 0 0 z) = \<bar>z\<bar> - r"
  by (simp add: altitude_def sphere_model_def length3_z_axis)

text \<open>
  What the clamp gives when it gives a LookAt, on an ellipsoid model that gives back the
  altitude of a position it is handed: the center is at altitude 0 and the eye at altitude
  1 or more, raised to 1 exactly when it was below. So \<open>rotate\<close>, \<open>zoom\<close> and \<open>pan\<close>
  keep a camera above the globe whenever they return a LookAt.
\<close>

lemma clamp_result_above:
  assumes "altitude_roundtrip m" and "clampToGlobe_lookAt (Some m) la = Inr la'"
  shows "above_globe m la' \<and> eye_raised m la la' \<and> up la' = up la"
proof -
  have "altitude m (eye la) \<noteq> altitude m (center la)"
    using assms(2)
    by (auto simp add: clampToGlobe_lookAt_def fdiv_def Let_def altitude_def split: if_splits)
  from clampToGlobe_above [OF assms(1) this] assms(2) show ?thesis by auto
qed

lemma operations_stay_above:
  assumes "altitude_roundtrip m" and "above_globe m la"
  shows "rotate_lookAt ops (Some m) la angle axis = Inr la' \<Longrightarrow> above_globe m la'"
    and "zoom_lookAt (Some m) la ratio = Inr la' \<Longrightarrow> above_globe m la'"
    and "pan_lookAt ops (Some m) la delta = Inr la' \<Longrightarrow> above_globe m la'"
proof -
  show "rotate_lookAt ops (Some m) la angle axis = Inr la' \<Longrightarrow> above_globe m la'"
    using clamp_result_above [OF assms(1)] by (auto simp add: rotate_lookAt_def)
  show "zoom_lookAt (Some m) la ratio = Inr la' \<Longrightarrow> above_globe m la'"
    using clamp_result_above [OF assms(1)] by (auto simp add: zoom_lookAt_def)
  show "pan_lookAt ops (Some m) la delta = Inr la' \<Longrightarrow> above_globe m la'"
    using clamp_result_above [OF assms(1)] assms(2)
    by (auto simp add: pan_lookAt_globe split: sum.splits if_splits)
qed

text \<open>
  On the unit sphere: a zoom that brings the eye to altitude 1/2 has it raised to altitude
  1, and the constructor leaves a camera that is above the globe as it is.
\<close>

lemma sphere_model_z_axis:
  "0 < z \<Longrightarrow>
   convertECEFToLatLongAltitude (sphere_model r) (Vec3 0 0 z) = Vec3 (pi / 2) 0 (z - r)"
  by (simp add: sphere_model_def length3_z_axis)

lemma sphere_model_pole:
  "convertLatLongAltitudeToECEF (sphere_model r) (Vec3 (pi / 2) 0 h) = Vec3 0 0 (r + h)"
  by (simp add: sphere_model_def)

lemma zoom_raises_eye:
  "zoom_move sample_lookAt (19 / 20) = sample_lookAt\<lparr>eye := Vec3 0 0 (3 / 2)\<rparr> \<and>
   altitude (sphere_model 1) (Vec3 0 0 (3 / 2)) = 1 / 2 \<and>
   zoom_lookAt (Some (sphere_model 1)) sample_lookAt (19 / 20) =
     Inr \<lparr>eye = Vec3 0 0 2, center = Vec3 0 0 1, up = Vec3 0 1 0\<rparr> \<and>
   altitude (sphere_model 1) (Vec3 0 0 2) = 1"
  by (simp add: zoom_lookAt_def zoom_move_def clampToGlobe_lookAt_def fdiv_def Let_def
      scale3_def plus_vec3_def minus_vec3_def sample_lookAt_def altitude_sphere_z_axis
      sphere_model_z_axis sphere_model_pole)

lemma globe_trackball_constructed:
  "GlobeTrackball_new \<lparr>eye = Vec3 0 0 0, center = Vec3 0 1 0, up = Vec3 0 0 1\<rparr> globe_trackball =
     Inr (globe_trackball\<lparr>views := [sample_lookAt, sample_lookAt], homeLookAt := Some 1\<rparr>)"
  by (simp add: GlobeTrackball_new_def globe_trackball_def sample_trackball_def
      GlobeTrackball_clampToGlobe_def on_lookAt_def clampToGlobe_lookAt_def fdiv_def Let_def
      scale3_def plus_vec3_def sample_lookAt_def sphere_model_z_axis sphere_model_pole)

text \<open>
  C1: the camera does not always stay above the globe. Take a trackball constructed on a
  camera above the unit sphere, the center on the surface and the eye 10 over it. A turn of
  the scroll wheel by 10 is a zoom by ratio 1, which puts the eye on the center; in
  \<open>clampToGlobe\<close> the two altitudes then are equal and the ratio
  \<open>location_eye.z / (location_eye.z - location_center.z)\<close> is a division by zero, which
  nothing guards. The center that the clamp computes from this ratio is not a point at
  altitude 0.
\<close>

theorem zoom_onto_center_not_finite:
  "above_globe (sphere_model 1) sample_lookAt \<and>
   zoom_move sample_lookAt 1 = sample_lookAt\<lparr>eye := center sample_lookAt\<rparr> \<and>
   fdiv (altitude (sphere_model 1) (eye (zoom_move sample_lookAt 1)))
        (altitude (sphere_model 1) (eye (zoom_move sample_lookAt 1))
         - altitude (sphere_model 1) (center (zoom_move sample_lookAt 1))) = Inl NonFinite \<and>
   zoom_lookAt (Some (sphere_model 1)) sample_lookAt 1 = Inl NonFinite \<and>
   (\<exists>t. GlobeTrackball_new \<lparr>eye = Vec3 0 0 0, center = Vec3 0 1 0, up = Vec3 0 0 1\<rparr>
           globe_trackball = Inr t \<and>
        views t ! lookAt t = sample_lookAt \<and>
        GlobeTrackball_zoom 1 t = Inl NonFinite \<and>
        apply_ScrollWheel t \<lparr>scroll_handled = False, scroll_delta = Vec3 0 10 0\<rparr>
          = Inl NonFinite)"
proof -
  have z: "zoom_lookAt (Some (sphere_model 1)) sample_lookAt 1 = Inl NonFinite"
    by (simp add: zoom_lookAt_def zoom_move_def clampToGlobe_lookAt_def fdiv_def Let_def
        scale3_def plus_vec3_def minus_vec3_def sample_lookAt_def)
  let ?t = "globe_trackball\<lparr>views := [sample_lookAt, sample_lookAt], homeLookAt := Some 1\<rparr>"
  have t: "views ?t ! lookAt ?t = sample_lookAt" "ellipsoidModel ?t = Some (sphere_model 1)"
    by (simp_all add: globe_trackball_def sample_trackball_def)
  have g: "GlobeTrackball_zoom 1 ?t = Inl NonFinite"
    by (simp add: GlobeTrackball_zoom_def on_lookAt_def globe_trackball_def
        sample_trackball_def z)
  have s: "apply_ScrollWheel ?t \<lparr>scroll_handled = False, scroll_delta = Vec3 0 10 0\<rparr>
          = Inl NonFinite"
    using g by (simp add: apply_ScrollWheel_def)
  have a: "above_globe (sphere_model 1) sample_lookAt \<and>
   zoom_move sample_lookAt 1 = sample_lookAt\<lparr>eye := center sample_lookAt\<rparr> \<and>
   fdiv (altitude (sphere_model 1) (eye (zoom_move sample_lookAt 1)))
        (altitude (sphere_model 1) (eye (zoom_move sample_lookAt 1))
         - altitude (sphere_model 1) (center (zoom_move sample_lookAt 1))) = Inl NonFinite"
    by (simp add: zoom_move_def fdiv_def Let_def scale3_def plus_vec3_def minus_vec3_def
        sample_lookAt_def above_globe_def altitude_sphere_z_axis)
  show ?thesis
    using a z globe_trackball_constructed t(1) g s by blast
qed




subsection \<open>rotate\<close>














end
